theory Spec2Isabelle
  imports Main "HOL-Library.Word"
begin

section \<open>Configuration nodes\<close>

text \<open>
  The mapper of \<^verbatim>\<open>internal/service/pipes/source_parameters.go\<close> reads and builds values
  of Go type \<^verbatim>\<open>interface{}\<close>: the untyped nil, strings, integers, booleans, slices
  \<^verbatim>\<open>[]interface{}\<close> and maps \<^verbatim>\<open>map[string]interface{}\<close>. A slice and a map may be nil,
  which the code tells apart from an empty one (\<^verbatim>\<open>tfMap == nil\<close>, \<^verbatim>\<open>v != nil\<close>), so both
  carry an \<open>option\<close>: \<open>None\<close> is the nil slice or nil map.

  A scalar is recorded by its value: \<open>TFInt\<close> holds the number whether the Go value has
  dynamic type \<^verbatim>\<open>int\<close> or \<^verbatim>\<open>int32\<close>, and \<open>TFString\<close> holds the characters whether it is a
  \<^verbatim>\<open>string\<close> or one of the SDK's named string types. The conversion \<^verbatim>\<open>int32(v)\<close> itself
  is modelled with its wrap-around, on 32-bit signed words.
\<close>

datatype tfval =
    TFNil
  | TFString string
  | TFInt int
  | TFBool bool
  | TFList "tfval list option"
  | TFMap "(string \<Rightarrow> tfval option) option"

type_synonym tfmap = "string \<Rightarrow> tfval option"

text \<open>\<^verbatim>\<open>tfMap[k]\<close>: a missing key reads as the nil interface value.\<close>

definition index :: "tfmap \<Rightarrow> string \<Rightarrow> tfval" where
  "index tfMap k = (case tfMap k of None \<Rightarrow> TFNil | Some v \<Rightarrow> v)"

text \<open>
  A failed unchecked type assertion \<^verbatim>\<open>x.(T)\<close> and a field read through a nil pointer
  both panic.
\<close>

datatype panic = TypeAssertionPanic | NilDereferencePanic

text \<open>Go's \<^verbatim>\<open>int32\<close>: a 32-bit word, read as two's complement by \<open>sint\<close>.\<close>

type_synonym int32 = "32 word"

text \<open>Sequencing of steps that may panic: the first panic is the result.\<close>

definition andThen :: "panic + 'a \<Rightarrow> ('a \<Rightarrow> panic + 'b) \<Rightarrow> panic + 'b" where
  "andThen r f = (case r of Inl p \<Rightarrow> Inl p | Inr x \<Rightarrow> f x)"

subsection \<open>The guards the expand functions repeat\<close>

text \<open>
  \<^verbatim>\<open>if v, ok := tfMap[k].(int); ok && v != 0 { apiObject.F = aws.Int32(int32(v)) }\<close>:
  the field stays nil unless the value is a non-zero int, which is then cut to 32 bits.
\<close>

definition int32Field :: "tfval \<Rightarrow> int32 option" where
  "int32Field x = (case x of TFInt v \<Rightarrow> if v \<noteq> 0 then Some (word_of_int v) else None | _ \<Rightarrow> None)"

text \<open>
  \<^verbatim>\<open>if v, ok := tfMap[k].(string); ok && v != "" { apiObject.F = aws.String(v) }\<close>.
\<close>

definition stringField :: "tfval \<Rightarrow> string option" where
  "stringField x = (case x of TFString v \<Rightarrow> if v \<noteq> [] then Some v else None | _ \<Rightarrow> None)"

text \<open>
  \<^verbatim>\<open>if v, ok := tfMap[k].(string); ok && v != "" { apiObject.F = types.E(v) }\<close> for a field of
  a named string type, or the plain \<^verbatim>\<open>Value\<close> string of a credentials member: the field
  keeps its zero value, the empty string, unless the guard holds.
\<close>

definition enumField :: "tfval \<Rightarrow> string" where
  "enumField x = (case x of TFString v \<Rightarrow> if v \<noteq> [] then v else [] | _ \<Rightarrow> [])"

text \<open>
  \<^verbatim>\<open>v, ok := tfMap[k].([]interface{}); ok && len(v) > 0 && v[0] != nil\<close>: when the guard
  holds the result is \<^verbatim>\<open>v[0]\<close>.
\<close>

definition firstElem :: "tfval \<Rightarrow> tfval option" where
  "firstElem x =
     (case x of
        TFList (Some (e # _)) \<Rightarrow> if e \<noteq> TFNil then Some e else None
      | _ \<Rightarrow> None)"

text \<open>The unchecked assertion \<^verbatim>\<open>v[0].(map[string]interface{})\<close>.\<close>

definition assertMap :: "tfval \<Rightarrow> panic + tfmap option" where
  "assertMap e = (case e of TFMap m \<Rightarrow> Inr m | _ \<Rightarrow> Inl TypeAssertionPanic)"

text \<open>
  \<^verbatim>\<open>if v, ok := ...; ok && len(v) > 0 && v[0] != nil { apiObject.F = expand(v[0].(map[string]interface{})) }\<close>
  for an expand function that cannot panic (its result is a pointer or an interface
  value, \<open>None\<close> when nil).
\<close>

definition blockField :: "(tfmap option \<Rightarrow> 'a option) \<Rightarrow> tfval \<Rightarrow> panic + 'a option" where
  "blockField expand x =
     (case firstElem x of
        None \<Rightarrow> Inr None
      | Some e \<Rightarrow> andThen (assertMap e) (\<lambda>m. Inr (expand m)))"

text \<open>The same statement for an expand function that may itself panic.\<close>

definition blockFieldP :: "(tfmap option \<Rightarrow> panic + 'a option) \<Rightarrow> tfval \<Rightarrow> panic + 'a option" where
  "blockFieldP expand x =
     (case firstElem x of
        None \<Rightarrow> Inr None
      | Some e \<Rightarrow> andThen (assertMap e) expand)"

section \<open>The typed API objects\<close>

text \<open>
  The structs of the AWS SDK package \<^verbatim>\<open>types\<close> that the mapper fills and reads. A pointer
  field is an \<open>option\<close>; a field of a named string type is a string whose zero value is
  empty. The field names carry a prefix per struct.
\<close>

text \<open>
  \<^verbatim>\<open>time.Time\<close> of the Go standard library: seconds and nanoseconds since
  January 1, year 1, 00:00:00 UTC, and the zone offset in seconds. \<^verbatim>\<open>Time{}\<close> is that
  instant in UTC.
\<close>

datatype Time = Time (secs: int) (nsecs: nat) (zoneOffset: int)

definition zeroTime :: Time where
  "zeroTime = Time 0 0 0"

text \<open>A Go \<^verbatim>\<open>error\<close> value, \<open>None\<close> when nil.\<close>

type_synonym error = "string option"

record Filter =
  Pattern :: "string option"

record FilterCriteria =
  Filters :: "Filter list option"

record DeadLetterConfig =
  Arn :: "string option"

text \<open>
  The union interfaces. A member is a pointer to a struct with the single field
  \<^verbatim>\<open>Value string\<close>, so a constructor carries \<open>Some\<close> of that string, or \<open>None\<close> for a nil
  pointer of the member's type held in the interface. \<^verbatim>\<open>*types.UnknownUnionMember\<close>
  implements every union interface of the SDK.
\<close>

datatype MQBrokerAccessCredentials =
    MQBrokerAccessCredentialsMemberBasicAuth "string option"
  | MQBrokerAccessCredentialsUnknownUnionMember string

datatype MSKAccessCredentials =
    MSKAccessCredentialsMemberClientCertificateTlsAuth "string option"
  | MSKAccessCredentialsMemberSaslScram512Auth "string option"
  | MSKAccessCredentialsUnknownUnionMember string

datatype SelfManagedKafkaAccessConfigurationCredentials =
    SelfManagedKafkaAccessConfigurationCredentialsMemberBasicAuth "string option"
  | SelfManagedKafkaAccessConfigurationCredentialsMemberClientCertificateTlsAuth "string option"
  | SelfManagedKafkaAccessConfigurationCredentialsMemberSaslScram256Auth "string option"
  | SelfManagedKafkaAccessConfigurationCredentialsMemberSaslScram512Auth "string option"
  | SelfManagedKafkaAccessConfigurationCredentialsUnknownUnionMember string

record PipeSourceActiveMQBrokerParameters =
  amq_BatchSize :: "int32 option"
  amq_Credentials :: "MQBrokerAccessCredentials option"
  amq_MaximumBatchingWindowInSeconds :: "int32 option"
  amq_QueueName :: "string option"

record PipeSourceDynamoDBStreamParameters =
  ddb_BatchSize :: "int32 option"
  ddb_DeadLetterConfig :: "DeadLetterConfig option"
  ddb_MaximumBatchingWindowInSeconds :: "int32 option"
  ddb_MaximumRecordAgeInSeconds :: "int32 option"
  ddb_MaximumRetryAttempts :: "int32 option"
  ddb_OnPartialBatchItemFailure :: string
  ddb_ParallelizationFactor :: "int32 option"
  ddb_StartingPosition :: string

record PipeSourceKinesisStreamParameters =
  kin_BatchSize :: "int32 option"
  kin_DeadLetterConfig :: "DeadLetterConfig option"
  kin_MaximumBatchingWindowInSeconds :: "int32 option"
  kin_MaximumRecordAgeInSeconds :: "int32 option"
  kin_MaximumRetryAttempts :: "int32 option"
  kin_OnPartialBatchItemFailure :: string
  kin_ParallelizationFactor :: "int32 option"
  kin_StartingPosition :: string
  kin_StartingPositionTimestamp :: "Time option"

record PipeSourceManagedStreamingKafkaParameters =
  msk_BatchSize :: "int32 option"
  msk_ConsumerGroupID :: "string option"
  msk_Credentials :: "MSKAccessCredentials option"
  msk_MaximumBatchingWindowInSeconds :: "int32 option"
  msk_StartingPosition :: string
  msk_TopicName :: "string option"

record PipeSourceRabbitMQBrokerParameters =
  rmq_BatchSize :: "int32 option"
  rmq_Credentials :: "MQBrokerAccessCredentials option"
  rmq_MaximumBatchingWindowInSeconds :: "int32 option"
  rmq_QueueName :: "string option"
  rmq_VirtualHost :: "string option"

record SelfManagedKafkaAccessConfigurationVpc =
  vpc_SecurityGroup :: "string list option"
  vpc_Subnets :: "string list option"

record PipeSourceSelfManagedKafkaParameters =
  smk_AdditionalBootstrapServers :: "string list option"
  smk_BatchSize :: "int32 option"
  smk_ConsumerGroupID :: "string option"
  smk_Credentials :: "SelfManagedKafkaAccessConfigurationCredentials option"
  smk_MaximumBatchingWindowInSeconds :: "int32 option"
  smk_ServerRootCaCertificate :: "string option"
  smk_StartingPosition :: string
  smk_TopicName :: "string option"
  smk_Vpc :: "SelfManagedKafkaAccessConfigurationVpc option"

record PipeSourceSqsQueueParameters =
  sqs_BatchSize :: "int32 option"
  sqs_MaximumBatchingWindowInSeconds :: "int32 option"

record PipeSourceParameters =
  ActiveMQBrokerParameters :: "PipeSourceActiveMQBrokerParameters option"
  DynamoDBStreamParameters :: "PipeSourceDynamoDBStreamParameters option"
  FilterCriteriaOf :: "FilterCriteria option"
  KinesisStreamParameters :: "PipeSourceKinesisStreamParameters option"
  ManagedStreamingKafkaParameters :: "PipeSourceManagedStreamingKafkaParameters option"
  RabbitMQBrokerParameters :: "PipeSourceRabbitMQBrokerParameters option"
  SelfManagedKafkaParameters :: "PipeSourceSelfManagedKafkaParameters option"
  SqsQueueParameters :: "PipeSourceSqsQueueParameters option"

section \<open>Expand: from a configuration node to the typed object\<close>

definition expandFilter :: "tfmap option \<Rightarrow> Filter option" where
  "expandFilter tfMap =
     (case tfMap of
        None \<Rightarrow> None
      | Some m \<Rightarrow> Some \<lparr>Pattern = stringField (index m ''pattern'')\<rparr>)"

text \<open>
  The loop of \<^verbatim>\<open>expandFilters\<close>: \<^verbatim>\<open>apiObjects\<close> starts as the nil slice, an element that
  is not a map or expands to nil is skipped, every other one is appended.
\<close>

definition appendSlice :: "'a list option \<Rightarrow> 'a \<Rightarrow> 'a list option" where
  "appendSlice s x = (case s of None \<Rightarrow> Some [x] | Some xs \<Rightarrow> Some (xs @ [x]))"

fun expandFiltersLoop :: "Filter list option \<Rightarrow> tfval list \<Rightarrow> Filter list option" where
  "expandFiltersLoop apiObjects [] = apiObjects"
| "expandFiltersLoop apiObjects (tfMapRaw # rest) =
     (case tfMapRaw of
        TFMap tfMap \<Rightarrow>
          (case expandFilter tfMap of
             None \<Rightarrow> expandFiltersLoop apiObjects rest
           | Some apiObject \<Rightarrow> expandFiltersLoop (appendSlice apiObjects apiObject) rest)
      | _ \<Rightarrow> expandFiltersLoop apiObjects rest)"

definition expandFilters :: "tfval list option \<Rightarrow> Filter list option" where
  "expandFilters tfList =
     (case tfList of
        None \<Rightarrow> None
      | Some [] \<Rightarrow> None
      | Some xs \<Rightarrow> expandFiltersLoop None xs)"

definition expandFilterCriteria :: "tfmap option \<Rightarrow> FilterCriteria option" where
  "expandFilterCriteria tfMap =
     (case tfMap of
        None \<Rightarrow> None
      | Some m \<Rightarrow>
          Some \<lparr>Filters =
            (case index m ''filter'' of
               TFList (Some (x # xs)) \<Rightarrow> expandFilters (Some (x # xs))
             | _ \<Rightarrow> None)\<rparr>)"

definition expandMQBrokerAccessCredentialsMemberBasicAuth ::
    "tfmap option \<Rightarrow> MQBrokerAccessCredentials option" where
  "expandMQBrokerAccessCredentialsMemberBasicAuth tfMap =
     (case tfMap of
        None \<Rightarrow> None
      | Some m \<Rightarrow>
          Some (MQBrokerAccessCredentialsMemberBasicAuth (Some (enumField (index m ''basic_auth'')))))"

definition expandPipeSourceActiveMQBrokerParameters ::
    "tfmap option \<Rightarrow> panic + PipeSourceActiveMQBrokerParameters option" where
  "expandPipeSourceActiveMQBrokerParameters tfMap =
     (case tfMap of
        None \<Rightarrow> Inr None
      | Some m \<Rightarrow>
          andThen (blockField expandMQBrokerAccessCredentialsMemberBasicAuth (index m ''credentials''))
            (\<lambda>credentials. Inr (Some
              \<lparr>amq_BatchSize = int32Field (index m ''batch_size''),
               amq_Credentials = credentials,
               amq_MaximumBatchingWindowInSeconds =
                 int32Field (index m ''maximum_batching_window_in_seconds''),
               amq_QueueName = stringField (index m ''queue_name'')\<rparr>)))"

definition expandDeadLetterConfig :: "tfmap option \<Rightarrow> DeadLetterConfig option" where
  "expandDeadLetterConfig tfMap =
     (case tfMap of
        None \<Rightarrow> None
      | Some m \<Rightarrow> Some \<lparr>Arn = stringField (index m ''arn'')\<rparr>)"

definition expandPipeSourceDynamoDBStreamParameters ::
    "tfmap option \<Rightarrow> panic + PipeSourceDynamoDBStreamParameters option" where
  "expandPipeSourceDynamoDBStreamParameters tfMap =
     (case tfMap of
        None \<Rightarrow> Inr None
      | Some m \<Rightarrow>
          andThen (blockField expandDeadLetterConfig (index m ''dead_letter_config''))
            (\<lambda>deadLetterConfig. Inr (Some
              \<lparr>ddb_BatchSize = int32Field (index m ''batch_size''),
               ddb_DeadLetterConfig = deadLetterConfig,
               ddb_MaximumBatchingWindowInSeconds =
                 int32Field (index m ''maximum_batching_window_in_seconds''),
               ddb_MaximumRecordAgeInSeconds =
                 int32Field (index m ''maximum_record_age_in_seconds''),
               ddb_MaximumRetryAttempts = int32Field (index m ''maximum_retry_attempts''),
               ddb_OnPartialBatchItemFailure =
                 enumField (index m ''on_partial_batch_item_failure''),
               ddb_ParallelizationFactor = int32Field (index m ''parallelization_factor''),
               ddb_StartingPosition = enumField (index m ''starting_position'')\<rparr>)))"

text \<open>
  \<^verbatim>\<open>time.Parse(time.RFC3339, v)\<close> belongs to the Go standard library and is the parameter
  \<open>parse\<close>, with the library's result type: a time and an error. The mapper keeps the time
  and drops the error: \<^verbatim>\<open>v, _ := time.Parse(time.RFC3339, v)\<close>.
\<close>

definition timeField :: "(string \<Rightarrow> Time \<times> error) \<Rightarrow> tfval \<Rightarrow> Time option" where
  "timeField parse x =
     (case x of
        TFString v \<Rightarrow> if v \<noteq> [] then Some (fst (parse v)) else None
      | _ \<Rightarrow> None)"

definition expandPipeSourceKinesisStreamParameters ::
    "(string \<Rightarrow> Time \<times> error) \<Rightarrow> tfmap option \<Rightarrow> panic + PipeSourceKinesisStreamParameters option" where
  "expandPipeSourceKinesisStreamParameters parse tfMap =
     (case tfMap of
        None \<Rightarrow> Inr None
      | Some m \<Rightarrow>
          andThen (blockField expandDeadLetterConfig (index m ''dead_letter_config''))
            (\<lambda>deadLetterConfig. Inr (Some
              \<lparr>kin_BatchSize = int32Field (index m ''batch_size''),
               kin_DeadLetterConfig = deadLetterConfig,
               kin_MaximumBatchingWindowInSeconds =
                 int32Field (index m ''maximum_batching_window_in_seconds''),
               kin_MaximumRecordAgeInSeconds =
                 int32Field (index m ''maximum_record_age_in_seconds''),
               kin_MaximumRetryAttempts = int32Field (index m ''maximum_retry_attempts''),
               kin_OnPartialBatchItemFailure =
                 enumField (index m ''on_partial_batch_item_failure''),
               kin_ParallelizationFactor = int32Field (index m ''parallelization_factor''),
               kin_StartingPosition = enumField (index m ''starting_position''),
               kin_StartingPositionTimestamp =
                 timeField parse (index m ''starting_position_timestamp'')\<rparr>)))"

definition expandMSKAccessCredentials :: "tfmap option \<Rightarrow> MSKAccessCredentials option" where
  "expandMSKAccessCredentials tfMap =
     (case tfMap of
        None \<Rightarrow> None
      | Some m \<Rightarrow>
          (case stringField (index m ''client_certificate_tls_auth'') of
             Some v \<Rightarrow> Some (MSKAccessCredentialsMemberClientCertificateTlsAuth (Some v))
           | None \<Rightarrow>
               (case stringField (index m ''sasl_scram_512_auth'') of
                  Some v \<Rightarrow> Some (MSKAccessCredentialsMemberSaslScram512Auth (Some v))
                | None \<Rightarrow> None)))"

definition expandPipeSourceManagedStreamingKafkaParameters ::
    "tfmap option \<Rightarrow> panic + PipeSourceManagedStreamingKafkaParameters option" where
  "expandPipeSourceManagedStreamingKafkaParameters tfMap =
     (case tfMap of
        None \<Rightarrow> Inr None
      | Some m \<Rightarrow>
          andThen (blockField expandMSKAccessCredentials (index m ''credentials''))
            (\<lambda>credentials. Inr (Some
              \<lparr>msk_BatchSize = int32Field (index m ''batch_size''),
               msk_ConsumerGroupID = stringField (index m ''consumer_group_id''),
               msk_Credentials = credentials,
               msk_MaximumBatchingWindowInSeconds =
                 int32Field (index m ''maximum_batching_window_in_seconds''),
               msk_StartingPosition = enumField (index m ''starting_position''),
               msk_TopicName = stringField (index m ''topic_name'')\<rparr>)))"

definition expandPipeSourceSqsQueueParameters ::
    "tfmap option \<Rightarrow> PipeSourceSqsQueueParameters option" where
  "expandPipeSourceSqsQueueParameters tfMap =
     (case tfMap of
        None \<Rightarrow> None
      | Some m \<Rightarrow>
          Some \<lparr>sqs_BatchSize = int32Field (index m ''batch_size''),
                sqs_MaximumBatchingWindowInSeconds =
                  int32Field (index m ''maximum_batching_window_in_seconds'')\<rparr>)"

text \<open>
  The top-level expand. Between the managed-streaming Kafka block and the SQS block the
  source has only the comment \<^verbatim>\<open>// TODO\<close>: the keys \<^verbatim>\<open>rabbit_mq_broker\<close> and
  \<^verbatim>\<open>self_managed_kafka\<close> are never read, and the two fields stay nil.
\<close>

definition expandPipeSourceParameters ::
    "(string \<Rightarrow> Time \<times> error) \<Rightarrow> tfmap option \<Rightarrow> panic + PipeSourceParameters option" where
  "expandPipeSourceParameters parse tfMap =
     (case tfMap of
        None \<Rightarrow> Inr None
      | Some m \<Rightarrow>
          andThen (blockFieldP expandPipeSourceActiveMQBrokerParameters
                     (index m ''activemq_broker_parameters'')) (\<lambda>activeMQ.
          andThen (blockFieldP expandPipeSourceDynamoDBStreamParameters
                     (index m ''dynamodb_stream_parameters'')) (\<lambda>dynamoDB.
          andThen (blockField expandFilterCriteria
                     (index m ''filter_criteria'')) (\<lambda>filterCriteria.
          andThen (blockFieldP (expandPipeSourceKinesisStreamParameters parse)
                     (index m ''kinesis_stream_parameters'')) (\<lambda>kinesis.
          andThen (blockFieldP expandPipeSourceManagedStreamingKafkaParameters
                     (index m ''managed_streaming_kafka_parameters'')) (\<lambda>msk.
          andThen (blockField expandPipeSourceSqsQueueParameters
                     (index m ''sqs_queue_parameters'')) (\<lambda>sqs.
          Inr (Some
            \<lparr>ActiveMQBrokerParameters = activeMQ,
             DynamoDBStreamParameters = dynamoDB,
             FilterCriteriaOf = filterCriteria,
             KinesisStreamParameters = kinesis,
             ManagedStreamingKafkaParameters = msk,
             RabbitMQBrokerParameters = None,
             SelfManagedKafkaParameters = None,
             SqsQueueParameters = sqs\<rparr>))))))))"

section \<open>Flatten: from the typed object to a configuration node\<close>

subsection \<open>The statements the flatten functions repeat\<close>

text \<open>\<^verbatim>\<open>if v := apiObject.F; v != nil { tfMap[k] = aws.ToInt32(v) }\<close>.\<close>

definition putInt32 :: "string \<Rightarrow> int32 option \<Rightarrow> tfmap \<Rightarrow> tfmap" where
  "putInt32 k f tfMap = (case f of None \<Rightarrow> tfMap | Some v \<Rightarrow> tfMap(k \<mapsto> TFInt (sint v)))"

text \<open>\<^verbatim>\<open>if v := apiObject.F; v != nil { tfMap[k] = aws.ToString(v) }\<close>.\<close>

definition putString :: "string \<Rightarrow> string option \<Rightarrow> tfmap \<Rightarrow> tfmap" where
  "putString k f tfMap = (case f of None \<Rightarrow> tfMap | Some v \<Rightarrow> tfMap(k \<mapsto> TFString v))"

text \<open>\<^verbatim>\<open>if v := apiObject.F; v != "" { tfMap[k] = v }\<close>.\<close>

definition putEnum :: "string \<Rightarrow> string \<Rightarrow> tfmap \<Rightarrow> tfmap" where
  "putEnum k v tfMap = (if v \<noteq> [] then tfMap(k \<mapsto> TFString v) else tfMap)"

text \<open>
  \<^verbatim>\<open>if v := apiObject.F; v != nil { tfMap[k] = []interface{}{flatten(v)} }\<close>, for a flatten
  function that cannot panic and for one that may.
\<close>

definition putBlock :: "string \<Rightarrow> 'a option \<Rightarrow> ('a option \<Rightarrow> tfmap option) \<Rightarrow> tfmap \<Rightarrow> tfmap" where
  "putBlock k f flatten tfMap =
     (case f of
        None \<Rightarrow> tfMap
      | Some v \<Rightarrow> tfMap(k \<mapsto> TFList (Some [TFMap (flatten (Some v))])))"

definition putBlockP ::
    "string \<Rightarrow> 'a option \<Rightarrow> ('a option \<Rightarrow> panic + tfmap option) \<Rightarrow> tfmap \<Rightarrow> panic + tfmap" where
  "putBlockP k f flatten tfMap =
     (case f of
        None \<Rightarrow> Inr tfMap
      | Some v \<Rightarrow>
          andThen (flatten (Some v)) (\<lambda>r. Inr (tfMap(k \<mapsto> TFList (Some [TFMap r])))))"

subsection \<open>The flatten functions\<close>

definition flattenFilter :: "Filter \<Rightarrow> tfmap" where
  "flattenFilter apiObject = putString ''pattern'' (Pattern apiObject) Map.empty"

text \<open>
  The loop of \<^verbatim>\<open>flattenFilters\<close>: \<^verbatim>\<open>tfList\<close> starts as the nil slice and every filter is
  appended.
\<close>

fun flattenFiltersLoop :: "tfval list option \<Rightarrow> Filter list \<Rightarrow> tfval list option" where
  "flattenFiltersLoop tfList [] = tfList"
| "flattenFiltersLoop tfList (apiObject # rest) =
     flattenFiltersLoop (appendSlice tfList (TFMap (Some (flattenFilter apiObject)))) rest"

definition flattenFilters :: "Filter list option \<Rightarrow> tfval list option" where
  "flattenFilters apiObjects =
     (case apiObjects of
        None \<Rightarrow> None
      | Some [] \<Rightarrow> None
      | Some xs \<Rightarrow> flattenFiltersLoop None xs)"

definition flattenFilterCriteria :: "FilterCriteria option \<Rightarrow> tfmap option" where
  "flattenFilterCriteria apiObject =
     (case apiObject of
        None \<Rightarrow> None
      | Some a \<Rightarrow>
          Some (case Filters a of
                  None \<Rightarrow> Map.empty
                | Some v \<Rightarrow> [''filter'' \<mapsto> TFList (flattenFilters (Some v))]))"

definition flattenMQBrokerAccessCredentialsMemberBasicAuth :: "string option \<Rightarrow> tfmap option" where
  "flattenMQBrokerAccessCredentialsMemberBasicAuth apiObject =
     (case apiObject of
        None \<Rightarrow> None
      | Some v \<Rightarrow> Some (putEnum ''basic_auth'' v Map.empty))"

text \<open>
  \<^verbatim>\<open>v.(*types.MQBrokerAccessCredentialsMemberBasicAuth)\<close> is an assertion without the
  \<^verbatim>\<open>ok\<close> result: it panics when the interface holds any other type.
\<close>

definition flattenPipeSourceActiveMQBrokerParameters ::
    "PipeSourceActiveMQBrokerParameters option \<Rightarrow> panic + tfmap option" where
  "flattenPipeSourceActiveMQBrokerParameters apiObject =
     (case apiObject of
        None \<Rightarrow> Inr None
      | Some a \<Rightarrow>
          (let tfMap = putInt32 ''batch_size'' (amq_BatchSize a) Map.empty in
           andThen
             (case amq_Credentials a of
                None \<Rightarrow> Inr tfMap
              | Some (MQBrokerAccessCredentialsMemberBasicAuth p) \<Rightarrow>
                  Inr (tfMap(''credentials'' \<mapsto>
                    TFList (Some [TFMap (flattenMQBrokerAccessCredentialsMemberBasicAuth p)])))
              | Some (MQBrokerAccessCredentialsUnknownUnionMember _) \<Rightarrow> Inl TypeAssertionPanic)
             (\<lambda>tfMap.
                (let tfMap = putInt32 ''maximum_batching_window_in_seconds''
                               (amq_MaximumBatchingWindowInSeconds a) tfMap;
                     tfMap = putString ''queue_name'' (amq_QueueName a) tfMap
                 in Inr (Some tfMap)))))"

definition flattenDeadLetterConfig :: "DeadLetterConfig option \<Rightarrow> tfmap option" where
  "flattenDeadLetterConfig apiObject =
     (case apiObject of
        None \<Rightarrow> None
      | Some a \<Rightarrow> Some (putString ''arn'' (Arn a) Map.empty))"

definition flattenPipeSourceDynamoDBStreamParameters ::
    "PipeSourceDynamoDBStreamParameters option \<Rightarrow> tfmap option" where
  "flattenPipeSourceDynamoDBStreamParameters apiObject =
     (case apiObject of
        None \<Rightarrow> None
      | Some a \<Rightarrow>
          (let tfMap = putInt32 ''batch_size'' (ddb_BatchSize a) Map.empty;
               tfMap = putBlock ''dead_letter_config'' (ddb_DeadLetterConfig a)
                         flattenDeadLetterConfig tfMap;
               tfMap = putInt32 ''maximum_batching_window_in_seconds''
                         (ddb_MaximumBatchingWindowInSeconds a) tfMap;
               tfMap = putInt32 ''maximum_record_age_in_seconds''
                         (ddb_MaximumRecordAgeInSeconds a) tfMap;
               tfMap = putInt32 ''maximum_retry_attempts'' (ddb_MaximumRetryAttempts a) tfMap;
               tfMap = putEnum ''on_partial_batch_item_failure''
                         (ddb_OnPartialBatchItemFailure a) tfMap;
               tfMap = putInt32 ''parallelization_factor'' (ddb_ParallelizationFactor a) tfMap;
               tfMap = putEnum ''starting_position'' (ddb_StartingPosition a) tfMap
           in Some tfMap))"

text \<open>
  \<^verbatim>\<open>aws.ToTime(v).Format(time.RFC3339)\<close> belongs to the Go standard library and is the
  parameter \<open>format\<close>.
\<close>

definition flattenPipeSourceKinesisStreamParameters ::
    "(Time \<Rightarrow> string) \<Rightarrow> PipeSourceKinesisStreamParameters option \<Rightarrow> tfmap option" where
  "flattenPipeSourceKinesisStreamParameters format apiObject =
     (case apiObject of
        None \<Rightarrow> None
      | Some a \<Rightarrow>
          (let tfMap = putInt32 ''batch_size'' (kin_BatchSize a) Map.empty;
               tfMap = putBlock ''dead_letter_config'' (kin_DeadLetterConfig a)
                         flattenDeadLetterConfig tfMap;
               tfMap = putInt32 ''maximum_batching_window_in_seconds''
                         (kin_MaximumBatchingWindowInSeconds a) tfMap;
               tfMap = putInt32 ''maximum_record_age_in_seconds''
                         (kin_MaximumRecordAgeInSeconds a) tfMap;
               tfMap = putInt32 ''maximum_retry_attempts'' (kin_MaximumRetryAttempts a) tfMap;
               tfMap = putEnum ''on_partial_batch_item_failure''
                         (kin_OnPartialBatchItemFailure a) tfMap;
               tfMap = putInt32 ''parallelization_factor'' (kin_ParallelizationFactor a) tfMap;
               tfMap = putEnum ''starting_position'' (kin_StartingPosition a) tfMap;
               tfMap = (case kin_StartingPositionTimestamp a of
                          None \<Rightarrow> tfMap
                        | Some v \<Rightarrow> tfMap(''starting_position_timestamp'' \<mapsto> TFString (format v)))
           in Some tfMap))"

text \<open>
  Each of the two assertions has the \<^verbatim>\<open>ok\<close> result, so a value of another type leaves the
  map empty. \<^verbatim>\<open>apiObject.Value\<close> reads through the pointer the interface holds.
\<close>

definition flattenMSKAccessCredentials :: "MSKAccessCredentials option \<Rightarrow> panic + tfmap option" where
  "flattenMSKAccessCredentials apiObject =
     (case apiObject of
        None \<Rightarrow> Inr None
      | Some (MSKAccessCredentialsMemberClientCertificateTlsAuth p) \<Rightarrow>
          (case p of
             None \<Rightarrow> Inl NilDereferencePanic
           | Some v \<Rightarrow> Inr (Some (putEnum ''client_certificate_tls_auth'' v Map.empty)))
      | Some (MSKAccessCredentialsMemberSaslScram512Auth p) \<Rightarrow>
          (case p of
             None \<Rightarrow> Inl NilDereferencePanic
           | Some v \<Rightarrow> Inr (Some (putEnum ''sasl_scram_512_auth'' v Map.empty)))
      | Some (MSKAccessCredentialsUnknownUnionMember _) \<Rightarrow> Inr (Some Map.empty))"

definition flattenPipeSourceManagedStreamingKafkaParameters ::
    "PipeSourceManagedStreamingKafkaParameters option \<Rightarrow> panic + tfmap option" where
  "flattenPipeSourceManagedStreamingKafkaParameters apiObject =
     (case apiObject of
        None \<Rightarrow> Inr None
      | Some a \<Rightarrow>
          (let tfMap = putInt32 ''batch_size'' (msk_BatchSize a) Map.empty;
               tfMap = putString ''consumer_group_id'' (msk_ConsumerGroupID a) tfMap
           in andThen (putBlockP ''credentials'' (msk_Credentials a) flattenMSKAccessCredentials tfMap)
             (\<lambda>tfMap.
                (let tfMap = putInt32 ''maximum_batching_window_in_seconds''
                               (msk_MaximumBatchingWindowInSeconds a) tfMap;
                     tfMap = putEnum ''starting_position'' (msk_StartingPosition a) tfMap;
                     tfMap = putString ''topic_name'' (msk_TopicName a) tfMap
                 in Inr (Some tfMap)))))"

definition flattenPipeSourceSqsQueueParameters ::
    "PipeSourceSqsQueueParameters option \<Rightarrow> tfmap option" where
  "flattenPipeSourceSqsQueueParameters apiObject =
     (case apiObject of
        None \<Rightarrow> None
      | Some a \<Rightarrow>
          (let tfMap = putInt32 ''batch_size'' (sqs_BatchSize a) Map.empty;
               tfMap = putInt32 ''maximum_batching_window_in_seconds''
                         (sqs_MaximumBatchingWindowInSeconds a) tfMap
           in Some tfMap))"

text \<open>
  The top-level flatten. As in the expand, the place of the RabbitMQ and self-managed
  Kafka fields holds only \<^verbatim>\<open>// TODO\<close>: the two fields are never read.
\<close>

definition flattenPipeSourceParameters ::
    "(Time \<Rightarrow> string) \<Rightarrow> PipeSourceParameters option \<Rightarrow> panic + tfmap option" where
  "flattenPipeSourceParameters format apiObject =
     (case apiObject of
        None \<Rightarrow> Inr None
      | Some a \<Rightarrow>
          andThen (putBlockP ''activemq_broker_parameters'' (ActiveMQBrokerParameters a)
                     flattenPipeSourceActiveMQBrokerParameters Map.empty)
            (\<lambda>tfMap.
               (let tfMap = putBlock ''dynamodb_stream_parameters'' (DynamoDBStreamParameters a)
                              flattenPipeSourceDynamoDBStreamParameters tfMap;
                    tfMap = putBlock ''filter_criteria'' (FilterCriteriaOf a)
                              flattenFilterCriteria tfMap;
                    tfMap = putBlock ''kinesis_stream_parameters'' (KinesisStreamParameters a)
                              (flattenPipeSourceKinesisStreamParameters format) tfMap
                in andThen (putBlockP ''managed_streaming_kafka_parameters''
                              (ManagedStreamingKafkaParameters a)
                              flattenPipeSourceManagedStreamingKafkaParameters tfMap)
                  (\<lambda>tfMap.
                     Inr (Some (putBlock ''sqs_queue_parameters'' (SqsQueueParameters a)
                                  flattenPipeSourceSqsQueueParameters tfMap))))))"

section \<open>Well-typed blocks and sample inputs\<close>

text \<open>
  A block attribute is safe for the statement
  \<^verbatim>\<open>if v, ok := x.([]interface{}); ok && len(v) > 0 && v[0] != nil { ... v[0].(map[string]interface{}) }\<close>
  when the guard fails or \<^verbatim>\<open>v[0]\<close> is a map (nil or not): the unchecked assertion then
  does not panic.
\<close>

definition blockAsserts :: "tfval \<Rightarrow> bool" where
  "blockAsserts x =
     (case firstElem x of
        None \<Rightarrow> True
      | Some e \<Rightarrow> (case e of TFMap _ \<Rightarrow> True | _ \<Rightarrow> False))"

text \<open>The guard holds and \<^verbatim>\<open>v[0]\<close> is a map that is not nil.\<close>

definition holdsMap :: "tfval \<Rightarrow> bool" where
  "holdsMap x = (case firstElem x of Some (TFMap (Some _)) \<Rightarrow> True | _ \<Rightarrow> False)"

text \<open>The block under key \<open>k\<close> of the map that \<^verbatim>\<open>v[0]\<close> holds is safe in the same sense.\<close>

definition nestedAsserts :: "string \<Rightarrow> tfval \<Rightarrow> bool" where
  "nestedAsserts k x =
     (case firstElem x of
        Some (TFMap (Some inner)) \<Rightarrow> blockAsserts (index inner k)
      | _ \<Rightarrow> True)"

text \<open>
  Two points of the standard library's behaviour, for evaluating the mapper on concrete
  nodes: \<^verbatim>\<open>time.Parse(time.RFC3339, "2023-01-01T00:00:00Z")\<close> succeeds and
  \<^verbatim>\<open>Format(time.RFC3339)\<close> prints that time back; parsing any other string used below
  fails, and \<^verbatim>\<open>time.Parse\<close> then returns the zero time with the error, which
  \<^verbatim>\<open>Format(time.RFC3339)\<close> prints as \<^verbatim>\<open>0001-01-01T00:00:00Z\<close>.
\<close>

definition sampleParse :: "string \<Rightarrow> Time \<times> error" where
  "sampleParse v =
     (if v = ''2023-01-01T00:00:00Z'' then (Time 63808128000 0 0, None)
      else (zeroTime, Some ''parsing time: cannot parse''))"

definition sampleFormat :: "Time \<Rightarrow> string" where
  "sampleFormat t =
     (if t = Time 63808128000 0 0 then ''2023-01-01T00:00:00Z''
      else if t = zeroTime then ''0001-01-01T00:00:00Z''
      else [])"

section \<open>Fully populated nodes of the implemented variants\<close>

text \<open>
  The blocks the schema declares for the five variants the mapper reads, with every
  attribute set. The managed-streaming Kafka credentials block sets one of its two
  attributes. The arguments follow the order of the attributes in the schema.
\<close>

datatype mskCredentialsBlock = ClientCertificateTlsAuth string | SaslScram512Auth string

datatype variantBlock =
    ActiveMQBrokerBlock int string int string
  | DynamoDBStreamBlock int string int int int string int string
  | KinesisStreamBlock int string int int int string int string string
  | ManagedStreamingKafkaBlock int string mskCredentialsBlock int string string
  | SqsQueueBlock int int

fun variantKey :: "variantBlock \<Rightarrow> string" where
  "variantKey (ActiveMQBrokerBlock _ _ _ _) = ''activemq_broker_parameters''"
| "variantKey (DynamoDBStreamBlock _ _ _ _ _ _ _ _) = ''dynamodb_stream_parameters''"
| "variantKey (KinesisStreamBlock _ _ _ _ _ _ _ _ _) = ''kinesis_stream_parameters''"
| "variantKey (ManagedStreamingKafkaBlock _ _ _ _ _ _) = ''managed_streaming_kafka_parameters''"
| "variantKey (SqsQueueBlock _ _) = ''sqs_queue_parameters''"

text \<open>A block is a list of one map.\<close>

definition oneBlock :: "tfmap \<Rightarrow> tfval" where
  "oneBlock tfMap = TFList (Some [TFMap (Some tfMap)])"

fun mskCredentialsMap :: "mskCredentialsBlock \<Rightarrow> tfmap" where
  "mskCredentialsMap (ClientCertificateTlsAuth arn) =
     [''client_certificate_tls_auth'' \<mapsto> TFString arn]"
| "mskCredentialsMap (SaslScram512Auth arn) = [''sasl_scram_512_auth'' \<mapsto> TFString arn]"

fun variantMap :: "variantBlock \<Rightarrow> tfmap" where
  "variantMap (ActiveMQBrokerBlock batchSize basicAuth window queueName) =
     [''batch_size'' \<mapsto> TFInt batchSize,
      ''credentials'' \<mapsto> oneBlock [''basic_auth'' \<mapsto> TFString basicAuth],
      ''maximum_batching_window_in_seconds'' \<mapsto> TFInt window,
      ''queue_name'' \<mapsto> TFString queueName]"
| "variantMap (DynamoDBStreamBlock batchSize arn window age attempts onFailure factor position) =
     [''batch_size'' \<mapsto> TFInt batchSize,
      ''dead_letter_config'' \<mapsto> oneBlock [''arn'' \<mapsto> TFString arn],
      ''maximum_batching_window_in_seconds'' \<mapsto> TFInt window,
      ''maximum_record_age_in_seconds'' \<mapsto> TFInt age,
      ''maximum_retry_attempts'' \<mapsto> TFInt attempts,
      ''on_partial_batch_item_failure'' \<mapsto> TFString onFailure,
      ''parallelization_factor'' \<mapsto> TFInt factor,
      ''starting_position'' \<mapsto> TFString position]"
| "variantMap (KinesisStreamBlock batchSize arn window age attempts onFailure factor position
       timestamp) =
     [''batch_size'' \<mapsto> TFInt batchSize,
      ''dead_letter_config'' \<mapsto> oneBlock [''arn'' \<mapsto> TFString arn],
      ''maximum_batching_window_in_seconds'' \<mapsto> TFInt window,
      ''maximum_record_age_in_seconds'' \<mapsto> TFInt age,
      ''maximum_retry_attempts'' \<mapsto> TFInt attempts,
      ''on_partial_batch_item_failure'' \<mapsto> TFString onFailure,
      ''parallelization_factor'' \<mapsto> TFInt factor,
      ''starting_position'' \<mapsto> TFString position,
      ''starting_position_timestamp'' \<mapsto> TFString timestamp]"
| "variantMap (ManagedStreamingKafkaBlock batchSize groupId credentials window position topic) =
     [''batch_size'' \<mapsto> TFInt batchSize,
      ''consumer_group_id'' \<mapsto> TFString groupId,
      ''credentials'' \<mapsto> oneBlock (mskCredentialsMap credentials),
      ''maximum_batching_window_in_seconds'' \<mapsto> TFInt window,
      ''starting_position'' \<mapsto> TFString position,
      ''topic_name'' \<mapsto> TFString topic]"
| "variantMap (SqsQueueBlock batchSize window) =
     [''batch_size'' \<mapsto> TFInt batchSize,
      ''maximum_batching_window_in_seconds'' \<mapsto> TFInt window]"

text \<open>The \<^verbatim>\<open>source_parameters\<close> node that holds the block under its variant's key.\<close>

definition sourceParametersNode :: "variantBlock \<Rightarrow> tfmap" where
  "sourceParametersNode b = [variantKey b \<mapsto> oneBlock (variantMap b)]"

text \<open>Every attribute differs from the zero value of its type.\<close>

fun mskCredentialsNonZero :: "mskCredentialsBlock \<Rightarrow> bool" where
  "mskCredentialsNonZero (ClientCertificateTlsAuth arn) = (arn \<noteq> [])"
| "mskCredentialsNonZero (SaslScram512Auth arn) = (arn \<noteq> [])"

fun nonZero :: "variantBlock \<Rightarrow> bool" where
  "nonZero (ActiveMQBrokerBlock batchSize basicAuth window queueName) =
     (batchSize \<noteq> 0 \<and> basicAuth \<noteq> [] \<and> window \<noteq> 0 \<and> queueName \<noteq> [])"
| "nonZero (DynamoDBStreamBlock batchSize arn window age attempts onFailure factor position) =
     (batchSize \<noteq> 0 \<and> arn \<noteq> [] \<and> window \<noteq> 0 \<and> age \<noteq> 0 \<and> attempts \<noteq> 0 \<and>
      onFailure \<noteq> [] \<and> factor \<noteq> 0 \<and> position \<noteq> [])"
| "nonZero (KinesisStreamBlock batchSize arn window age attempts onFailure factor position
       timestamp) =
     (batchSize \<noteq> 0 \<and> arn \<noteq> [] \<and> window \<noteq> 0 \<and> age \<noteq> 0 \<and> attempts \<noteq> 0 \<and>
      onFailure \<noteq> [] \<and> factor \<noteq> 0 \<and> position \<noteq> [] \<and> timestamp \<noteq> [])"
| "nonZero (ManagedStreamingKafkaBlock batchSize groupId credentials window position topic) =
     (batchSize \<noteq> 0 \<and> groupId \<noteq> [] \<and> mskCredentialsNonZero credentials \<and> window \<noteq> 0 \<and>
      position \<noteq> [] \<and> topic \<noteq> [])"
| "nonZero (SqsQueueBlock batchSize window) = (batchSize \<noteq> 0 \<and> window \<noteq> 0)"

text \<open>Every integer is in the range of \<^verbatim>\<open>int32\<close>.\<close>

definition fitsInt32 :: "int \<Rightarrow> bool" where
  "fitsInt32 v = (- 2147483648 \<le> v \<and> v \<le> 2147483647)"

fun integersFit :: "variantBlock \<Rightarrow> bool" where
  "integersFit (ActiveMQBrokerBlock batchSize _ window _) =
     (fitsInt32 batchSize \<and> fitsInt32 window)"
| "integersFit (DynamoDBStreamBlock batchSize _ window age attempts _ factor _) =
     (fitsInt32 batchSize \<and> fitsInt32 window \<and> fitsInt32 age \<and> fitsInt32 attempts \<and>
      fitsInt32 factor)"
| "integersFit (KinesisStreamBlock batchSize _ window age attempts _ factor _ _) =
     (fitsInt32 batchSize \<and> fitsInt32 window \<and> fitsInt32 age \<and> fitsInt32 attempts \<and>
      fitsInt32 factor)"
| "integersFit (ManagedStreamingKafkaBlock batchSize _ _ window _ _) =
     (fitsInt32 batchSize \<and> fitsInt32 window)"
| "integersFit (SqsQueueBlock batchSize window) = (fitsInt32 batchSize \<and> fitsInt32 window)"

text \<open>
  The Kinesis timestamp is a string that \<^verbatim>\<open>Format(time.RFC3339)\<close> prints back from the
  time \<^verbatim>\<open>time.Parse\<close> returns for it.
\<close>

fun timestampReprinted :: "(string \<Rightarrow> Time \<times> error) \<Rightarrow> (Time \<Rightarrow> string) \<Rightarrow> variantBlock \<Rightarrow> bool" where
  "timestampReprinted parse format (KinesisStreamBlock _ _ _ _ _ _ _ _ timestamp) =
     (format (fst (parse timestamp)) = timestamp)"
| "timestampReprinted parse format _ = True"

text \<open>Expand, then flatten.\<close>

definition roundTrip ::
    "(string \<Rightarrow> Time \<times> error) \<Rightarrow> (Time \<Rightarrow> string) \<Rightarrow> tfmap option \<Rightarrow> panic + tfmap option" where
  "roundTrip parse format tfMap =
     andThen (expandPipeSourceParameters parse tfMap) (flattenPipeSourceParameters format)"

text \<open>
  Three nodes outside these conditions: a managed-streaming Kafka block that sets both
  credentials, a Kinesis block whose timestamp does not parse, and a RabbitMQ broker block
  with every attribute of its schema set.
\<close>

definition twoCredentialsNode :: tfmap where
  "twoCredentialsNode =
     [''managed_streaming_kafka_parameters'' \<mapsto> oneBlock
        [''batch_size'' \<mapsto> TFInt 100,
         ''consumer_group_id'' \<mapsto> TFString ''group'',
         ''credentials'' \<mapsto> oneBlock
            [''client_certificate_tls_auth'' \<mapsto> TFString ''arn:cert'',
             ''sasl_scram_512_auth'' \<mapsto> TFString ''arn:scram''],
         ''maximum_batching_window_in_seconds'' \<mapsto> TFInt 5,
         ''starting_position'' \<mapsto> TFString ''LATEST'',
         ''topic_name'' \<mapsto> TFString ''events'']]"

definition unparsedTimestampBlock :: variantBlock where
  "unparsedTimestampBlock =
     KinesisStreamBlock 100 ''arn:aws:sqs:dlq'' 5 60 3 ''AUTOMATIC_BISECT'' 2 ''AT_TIMESTAMP''
       ''yesterday''"

definition rabbitMQNode :: tfmap where
  "rabbitMQNode =
     [''rabbit_mq_broker'' \<mapsto> oneBlock
        [''batch_size'' \<mapsto> TFInt 100,
         ''credentials'' \<mapsto> oneBlock [''basic_auth'' \<mapsto> TFString ''arn:aws:secretsmanager:secret''],
         ''maximum_batching_window_in_seconds'' \<mapsto> TFInt 5,
         ''queue'' \<mapsto> TFString ''orders'',
         ''virtual_host'' \<mapsto> TFString ''vhost'']]"

section \<open>The schema\<close>

text \<open>
  \<^verbatim>\<open>sourceParametersSchema\<close> builds a tree of \<^verbatim>\<open>schema.Schema\<close> values. The fields kept here
  are the ones that constrain a configuration: \<^verbatim>\<open>Type\<close>, \<^verbatim>\<open>Optional\<close>, \<^verbatim>\<open>Required\<close>,
  \<^verbatim>\<open>MaxItems\<close> (0 when not set), \<^verbatim>\<open>ConflictsWith\<close>, \<^verbatim>\<open>Elem\<close> and the validator
  (\<^verbatim>\<open>ValidateFunc\<close> or \<^verbatim>\<open>ValidateDiagFunc\<close>). \<^verbatim>\<open>Computed\<close>, \<^verbatim>\<open>ForceNew\<close>, \<^verbatim>\<open>Default\<close> and
  \<^verbatim>\<open>DiffSuppressFunc\<close> steer planning and are left out. A \<^verbatim>\<open>map[string]*schema.Schema\<close>
  is the list of its entries in source order.
\<close>

datatype ValueType = TypeInt | TypeString | TypeList | TypeSet

text \<open>
  The regular expressions of the \<^verbatim>\<open>validation.StringMatch\<close> calls:
  \<^item> \<open>SecretsManagerARN\<close>:
    \<^verbatim>\<open>^(^arn:aws([a-z]|\-)*:secretsmanager:([a-z]{2}((-gov)|(-iso(b?)))?-[a-z]+-\d{1}):(\d{12}):secret:.+)$\<close>
  \<^item> \<open>AnyText\<close>: \<^verbatim>\<open>^[\s\S]*$\<close>
  \<^item> \<open>KafkaName\<close>: \<^verbatim>\<open>^[^.]([a-zA-Z0-9\-_.]+)$\<close>
  \<^item> \<open>HostOrGroupName\<close>: \<^verbatim>\<open>^[a-zA-Z0-9-\/*:_+=.@-]*$\<close>
  \<^item> \<open>ServerAddress\<close>:
    \<^verbatim>\<open>^(([a-zA-Z0-9]|[a-zA-Z0-9][a-zA-Z0-9\-]*[a-zA-Z0-9])\.)*([A-Za-z0-9]|[A-Za-z0-9][A-Za-z0-9\-]*[A-Za-z0-9]):[0-9]{1,5}$\<close>
  \<^item> \<open>SecurityGroupId\<close>: \<^verbatim>\<open>^sg-[0-9a-zA-Z]*$\<close>
  \<^item> \<open>SubnetId\<close>: \<^verbatim>\<open>^subnet-[0-9a-z]*$\<close>
\<close>

datatype regexp =
    SecretsManagerARN | AnyText | KafkaName | HostOrGroupName | ServerAddress
  | SecurityGroupId | SubnetId

text \<open>
  The validators the schema names. \<open>AllOf\<close> and \<open>AnyOf\<close> are \<^verbatim>\<open>validation.All\<close> and
  \<^verbatim>\<open>validation.Any\<close>; \<open>EnumValidate\<close> is \<^verbatim>\<open>enum.Validate[T]()\<close> with the name of \<^verbatim>\<open>T\<close>.
\<close>

datatype validateFunc =
    NoValidateFunc
  | IntBetween int int
  | IntInSlice "int list"
  | StringLenBetween int int
  | StringMatch regexp
  | AllOf "validateFunc list"
  | AnyOf "validateFunc list"
  | ValidARN
  | IsRFC3339Time
  | EnumValidate string

datatype schema =
    Schema (Type: ValueType) (Optional: bool) (Required: bool) (MaxItems: nat)
      (ConflictsWith: "string list") (Elem: elem) (ValidateFunc: validateFunc)
and elem =
    NoElem
  | ElemResource "(string \<times> schema) list"
  | ElemSchema schema


text \<open>
  The schema, attribute by attribute as in the source. The arguments of \<open>Schema\<close> are
  \<^verbatim>\<open>Type\<close>, \<^verbatim>\<open>Optional\<close>, \<^verbatim>\<open>Required\<close>, \<^verbatim>\<open>MaxItems\<close>, \<^verbatim>\<open>ConflictsWith\<close>, \<^verbatim>\<open>Elem\<close> and the
  validator.
\<close>

definition verifySecretsManagerARN :: validateFunc where
  "verifySecretsManagerARN = StringMatch SecretsManagerARN"

definition activemqBrokerParametersSchema :: schema where
  "activemqBrokerParametersSchema =
     Schema TypeList True False 1
       [''source_parameters.0.dynamodb_stream_parameters'',
        ''source_parameters.0.kinesis_stream_parameters'',
        ''source_parameters.0.managed_streaming_kafka_parameters'',
        ''source_parameters.0.rabbit_mq_broker'',
        ''source_parameters.0.self_managed_kafka'',
        ''source_parameters.0.sqs_queue_parameters'']
       (ElemResource
         [(''batch_size'', Schema TypeInt True False 0 [] NoElem (IntBetween 1 10000)),
          (''credentials'', Schema TypeList False True 1 []
             (ElemResource
               [(''basic_auth'',
                 Schema TypeString False True 0 [] NoElem verifySecretsManagerARN)])
             NoValidateFunc),
          (''maximum_batching_window_in_seconds'',
           Schema TypeInt True False 0 [] NoElem (IntBetween 0 300)),
          (''queue_name'', Schema TypeString False True 0 [] NoElem
             (AllOf [StringLenBetween 1 1000, StringMatch AnyText]))])
       NoValidateFunc"

definition deadLetterConfigSchema :: schema where
  "deadLetterConfigSchema =
     Schema TypeList True False 1 []
       (ElemResource [(''arn'', Schema TypeString True False 0 [] NoElem ValidARN)])
       NoValidateFunc"

definition dynamodbStreamParametersSchema :: schema where
  "dynamodbStreamParametersSchema =
     Schema TypeList True False 1
       [''source_parameters.0.activemq_broker_parameters'',
        ''source_parameters.0.kinesis_stream_parameters'',
        ''source_parameters.0.managed_streaming_kafka_parameters'',
        ''source_parameters.0.rabbit_mq_broker'',
        ''source_parameters.0.self_managed_kafka'',
        ''source_parameters.0.sqs_queue_parameters'']
       (ElemResource
         [(''batch_size'', Schema TypeInt True False 0 [] NoElem (IntBetween 1 10000)),
          (''dead_letter_config'', deadLetterConfigSchema),
          (''maximum_batching_window_in_seconds'',
           Schema TypeInt True False 0 [] NoElem (IntBetween 0 300)),
          (''maximum_record_age_in_seconds'',
           Schema TypeInt True False 0 [] NoElem
             (AnyOf [IntInSlice [- 1], IntBetween 60 604800])),
          (''maximum_retry_attempts'',
           Schema TypeInt True False 0 [] NoElem (IntBetween (- 1) 10000)),
          (''on_partial_batch_item_failure'',
           Schema TypeString True False 0 [] NoElem
             (EnumValidate ''OnPartialBatchItemFailureStreams'')),
          (''parallelization_factor'',
           Schema TypeInt True False 0 [] NoElem (IntBetween 1 10)),
          (''starting_position'',
           Schema TypeString False True 0 [] NoElem
             (EnumValidate ''DynamoDBStreamStartPosition''))])
       NoValidateFunc"

definition filterCriteriaSchema :: schema where
  "filterCriteriaSchema =
     Schema TypeList True False 1 []
       (ElemResource
         [(''filter'', Schema TypeList False True 5 []
             (ElemResource
               [(''pattern'',
                 Schema TypeString False True 0 [] NoElem (StringLenBetween 1 4096))])
             NoValidateFunc)])
       NoValidateFunc"

definition kinesisStreamParametersSchema :: schema where
  "kinesisStreamParametersSchema =
     Schema TypeList True False 1
       [''source_parameters.0.activemq_broker_parameters'',
        ''source_parameters.0.dynamodb_stream_parameters'',
        ''source_parameters.0.managed_streaming_kafka_parameters'',
        ''source_parameters.0.rabbit_mq_broker'',
        ''source_parameters.0.self_managed_kafka'',
        ''source_parameters.0.sqs_queue_parameters'']
       (ElemResource
         [(''batch_size'', Schema TypeInt True False 0 [] NoElem (IntBetween 1 10000)),
          (''dead_letter_config'', deadLetterConfigSchema),
          (''maximum_batching_window_in_seconds'',
           Schema TypeInt True False 0 [] NoElem (IntBetween 0 300)),
          (''maximum_record_age_in_seconds'',
           Schema TypeInt True False 0 [] NoElem
             (AnyOf [IntInSlice [- 1], IntBetween 60 604800])),
          (''maximum_retry_attempts'',
           Schema TypeInt True False 0 [] NoElem (IntBetween (- 1) 10000)),
          (''on_partial_batch_item_failure'',
           Schema TypeString True False 0 [] NoElem
             (EnumValidate ''OnPartialBatchItemFailureStreams'')),
          (''parallelization_factor'',
           Schema TypeInt True False 0 [] NoElem (IntBetween 1 10)),
          (''starting_position'',
           Schema TypeString False True 0 [] NoElem
             (EnumValidate ''KinesisStreamStartPosition'')),
          (''starting_position_timestamp'',
           Schema TypeString True False 0 [] NoElem IsRFC3339Time)])
       NoValidateFunc"

definition managedStreamingKafkaParametersSchema :: schema where
  "managedStreamingKafkaParametersSchema =
     Schema TypeList True False 1
       [''source_parameters.0.activemq_broker_parameters'',
        ''source_parameters.0.dynamodb_stream_parameters'',
        ''source_parameters.0.kinesis_stream_parameters'',
        ''source_parameters.0.rabbit_mq_broker'',
        ''source_parameters.0.self_managed_kafka'',
        ''source_parameters.0.sqs_queue_parameters'']
       (ElemResource
         [(''batch_size'', Schema TypeInt True False 0 [] NoElem (IntBetween 1 10000)),
          (''consumer_group_id'', Schema TypeString True False 0 [] NoElem
             (AllOf [StringLenBetween 1 200, StringMatch KafkaName])),
          (''credentials'', Schema TypeList True False 1 []
             (ElemResource
               [(''client_certificate_tls_auth'',
                 Schema TypeString True False 0 [] NoElem verifySecretsManagerARN),
                (''sasl_scram_512_auth'',
                 Schema TypeString True False 0 [] NoElem verifySecretsManagerARN)])
             NoValidateFunc),
          (''maximum_batching_window_in_seconds'',
           Schema TypeInt True False 0 [] NoElem (IntBetween 0 300)),
          (''starting_position'',
           Schema TypeString True False 0 [] NoElem (EnumValidate ''MSKStartPosition'')),
          (''topic_name'', Schema TypeString False True 0 [] NoElem
             (AllOf [StringLenBetween 1 249, StringMatch KafkaName]))])
       NoValidateFunc"

definition rabbitMQBrokerSchema :: schema where
  "rabbitMQBrokerSchema =
     Schema TypeList True False 1
       [''source_parameters.0.activemq_broker_parameters'',
        ''source_parameters.0.dynamodb_stream_parameters'',
        ''source_parameters.0.kinesis_stream_parameters'',
        ''source_parameters.0.managed_streaming_kafka_parameters'',
        ''source_parameters.0.self_managed_kafka'',
        ''source_parameters.0.sqs_queue_parameters'']
       (ElemResource
         [(''batch_size'', Schema TypeInt True False 0 [] NoElem (IntBetween 1 10000)),
          (''credentials'', Schema TypeList False True 1 []
             (ElemResource
               [(''basic_auth'',
                 Schema TypeString False True 0 [] NoElem verifySecretsManagerARN)])
             NoValidateFunc),
          (''maximum_batching_window_in_seconds'',
           Schema TypeInt True False 0 [] NoElem (IntBetween 0 300)),
          (''queue'', Schema TypeString False True 0 [] NoElem
             (AllOf [StringLenBetween 1 1000, StringMatch AnyText])),
          (''virtual_host'', Schema TypeString True False 0 [] NoElem
             (AllOf [StringLenBetween 1 200, StringMatch HostOrGroupName]))])
       NoValidateFunc"

definition selfManagedKafkaSchema :: schema where
  "selfManagedKafkaSchema =
     Schema TypeList True False 1
       [''source_parameters.0.activemq_broker_parameters'',
        ''source_parameters.0.dynamodb_stream_parameters'',
        ''source_parameters.0.kinesis_stream_parameters'',
        ''source_parameters.0.managed_streaming_kafka_parameters'',
        ''source_parameters.0.rabbit_mq_broker'',
        ''source_parameters.0.sqs_queue_parameters'']
       (ElemResource
         [(''batch_size'', Schema TypeInt True False 0 [] NoElem (IntBetween 1 10000)),
          (''consumer_group_id'', Schema TypeString True False 0 [] NoElem
             (AllOf [StringLenBetween 1 200, StringMatch HostOrGroupName])),
          (''credentials'', Schema TypeList True False 1 []
             (ElemResource
               [(''basic_auth'',
                 Schema TypeString False True 0 [] NoElem verifySecretsManagerARN),
                (''client_certificate_tls_auth'',
                 Schema TypeString True False 0 [] NoElem verifySecretsManagerARN),
                (''sasl_scram_256_auth'',
                 Schema TypeString True False 0 [] NoElem verifySecretsManagerARN),
                (''sasl_scram_512_auth'',
                 Schema TypeString True False 0 [] NoElem verifySecretsManagerARN)])
             NoValidateFunc),
          (''maximum_batching_window_in_seconds'',
           Schema TypeInt True False 0 [] NoElem (IntBetween 0 300)),
          (''server_root_ca_certificate'',
           Schema TypeString True False 0 [] NoElem ValidARN),
          (''servers'', Schema TypeSet True False 2 []
             (ElemSchema (Schema TypeString False False 0 [] NoElem
                (AllOf [StringLenBetween 1 300, StringMatch ServerAddress])))
             NoValidateFunc),
          (''starting_position'',
           Schema TypeString True False 0 [] NoElem
             (EnumValidate ''SelfManagedKafkaStartPosition'')),
          (''topic'', Schema TypeString False True 0 [] NoElem
             (AllOf [StringLenBetween 1 249, StringMatch KafkaName])),
          (''vpc'', Schema TypeList True False 1 []
             (ElemResource
               [(''security_groups'', Schema TypeSet True False 5 []
                   (ElemSchema (Schema TypeString False False 0 [] NoElem
                      (AllOf [StringLenBetween 1 1024, StringMatch SecurityGroupId])))
                   NoValidateFunc),
                (''subnets'', Schema TypeSet True False 16 []
                   (ElemSchema (Schema TypeString False False 0 [] NoElem
                      (AllOf [StringLenBetween 1 1024, StringMatch SubnetId])))
                   NoValidateFunc)])
             NoValidateFunc)])
       NoValidateFunc"

definition sqsQueueParametersSchema :: schema where
  "sqsQueueParametersSchema =
     Schema TypeList True False 1
       [''source_parameters.0.activemq_broker_parameters'',
        ''source_parameters.0.dynamodb_stream_parameters'',
        ''source_parameters.0.kinesis_stream_parameters'',
        ''source_parameters.0.managed_streaming_kafka_parameters'',
        ''source_parameters.0.rabbit_mq_broker'',
        ''source_parameters.0.self_managed_kafka'']
       (ElemResource
         [(''batch_size'', Schema TypeInt True False 0 [] NoElem (IntBetween 1 10000)),
          (''maximum_batching_window_in_seconds'',
           Schema TypeInt True False 0 [] NoElem (IntBetween 0 300))])
       NoValidateFunc"

definition sourceParametersSchema :: schema where
  "sourceParametersSchema =
     Schema TypeList True False 1 []
       (ElemResource
         [(''activemq_broker_parameters'', activemqBrokerParametersSchema),
          (''dynamodb_stream_parameters'', dynamodbStreamParametersSchema),
          (''filter_criteria'', filterCriteriaSchema),
          (''kinesis_stream_parameters'', kinesisStreamParametersSchema),
          (''managed_streaming_kafka_parameters'', managedStreamingKafkaParametersSchema),
          (''rabbit_mq_broker'', rabbitMQBrokerSchema),
          (''self_managed_kafka'', selfManagedKafkaSchema),
          (''sqs_queue_parameters'', sqsQueueParametersSchema)])
       NoValidateFunc"

text \<open>The seven variant blocks: the attributes that declare \<^verbatim>\<open>ConflictsWith\<close>.\<close>

definition sourceParameterVariants :: "string list" where
  "sourceParameterVariants =
     [''activemq_broker_parameters'', ''dynamodb_stream_parameters'',
      ''kinesis_stream_parameters'', ''managed_streaming_kafka_parameters'',
      ''rabbit_mq_broker'', ''self_managed_kafka'', ''sqs_queue_parameters'']"

text \<open>The attribute a path of keys leads to, through the nested resources.\<close>

fun attributeAt :: "schema \<Rightarrow> string list \<Rightarrow> schema option" where
  "attributeAt s [] = Some s"
| "attributeAt s (k # ks) =
     (case Elem s of
        ElemResource attributes \<Rightarrow>
          (case map_of attributes k of
             None \<Rightarrow> None
           | Some s' \<Rightarrow> attributeAt s' ks)
      | _ \<Rightarrow> None)"


section \<open>The validation layer\<close>

text \<open>
  Modelled from the spec: the schema host framework that validates a configuration
  against the schema, and its helpers \<^verbatim>\<open>validation.IntBetween\<close>, \<^verbatim>\<open>validation.IntInSlice\<close>,
  \<^verbatim>\<open>validation.StringLenBetween\<close>, \<^verbatim>\<open>validation.All\<close> and \<^verbatim>\<open>validation.Any\<close>, are not in
  \<^verbatim>\<open>src/\<close>. Following the spec, the layer invokes the validator declared with each field
  and rejects a value outside the declared bounds, which are inclusive (batch size
  1--10000, pattern length 1--4096), and a list with more entries than the declared
  count (filter count at most 5). \<open>validates ext f x\<close> says that validator \<open>f\<close> accepts
  the value \<open>x\<close>; the validators whose meaning lies outside this file (regular
  expressions, ARNs, enumerations, timestamps) are decided by the parameter \<open>ext\<close>.
\<close>

fun validates :: "(validateFunc \<Rightarrow> tfval \<Rightarrow> bool) \<Rightarrow> validateFunc \<Rightarrow> tfval \<Rightarrow> bool" where
  "validates ext NoValidateFunc x = True"
| "validates ext (IntBetween lo hi) x = (case x of TFInt v \<Rightarrow> lo \<le> v \<and> v \<le> hi | _ \<Rightarrow> False)"
| "validates ext (IntInSlice vs) x = (case x of TFInt v \<Rightarrow> v \<in> set vs | _ \<Rightarrow> False)"
| "validates ext (StringLenBetween lo hi) x =
     (case x of TFString v \<Rightarrow> lo \<le> int (length v) \<and> int (length v) \<le> hi | _ \<Rightarrow> False)"
| "validates ext (AllOf fs) x = list_all (\<lambda>f. validates ext f x) fs"
| "validates ext (AnyOf fs) x = list_ex (\<lambda>f. validates ext f x) fs"
| "validates ext f x = ext f x"

text \<open>
  Modelled from the spec: the validation of a value against a schema is not in
  \<^verbatim>\<open>src/\<close>. An integer or string attribute takes a value of its type that its validator
  accepts; a list or set attribute takes a list of at most \<^verbatim>\<open>MaxItems\<close> entries (when
  \<^verbatim>\<open>MaxItems\<close> is set), each valid for \<^verbatim>\<open>Elem\<close>; an entry of a resource is a map in which
  every attribute that is present is valid and every required attribute is present.
\<close>

fun validateValue :: "(validateFunc \<Rightarrow> tfval \<Rightarrow> bool) \<Rightarrow> schema \<Rightarrow> tfval \<Rightarrow> bool"
  and validateElem :: "(validateFunc \<Rightarrow> tfval \<Rightarrow> bool) \<Rightarrow> elem \<Rightarrow> tfval \<Rightarrow> bool"
  and validateAttributes ::
    "(validateFunc \<Rightarrow> tfval \<Rightarrow> bool) \<Rightarrow> (string \<times> schema) list \<Rightarrow> tfmap \<Rightarrow> bool" where
  "validateValue ext (Schema ty opt req maxItems conflicts el f) x =
     (case ty of
        TypeInt \<Rightarrow> (case x of TFInt _ \<Rightarrow> validates ext f x | _ \<Rightarrow> False)
      | TypeString \<Rightarrow> (case x of TFString _ \<Rightarrow> validates ext f x | _ \<Rightarrow> False)
      | _ \<Rightarrow>
          (case x of
             TFList (Some xs) \<Rightarrow>
               (maxItems = 0 \<or> length xs \<le> maxItems) \<and> list_all (validateElem ext el) xs
           | _ \<Rightarrow> False))"
| "validateElem ext NoElem x = False"
| "validateElem ext (ElemSchema s) x = validateValue ext s x"
| "validateElem ext (ElemResource attributes) x =
     (case x of TFMap (Some tfMap) \<Rightarrow> validateAttributes ext attributes tfMap | _ \<Rightarrow> False)"
| "validateAttributes ext [] tfMap = True"
| "validateAttributes ext ((k, s) # attributes) tfMap =
     ((case tfMap k of None \<Rightarrow> \<not> Required s | Some v \<Rightarrow> validateValue ext s v) \<and>
      validateAttributes ext attributes tfMap)"


text \<open>
  An instance of \<open>ext\<close> for evaluating the validation on concrete values whose validators
  do not consult it.
\<close>

definition acceptsAll :: "validateFunc \<Rightarrow> tfval \<Rightarrow> bool" where
  "acceptsAll f x = True"

text \<open>A filter entry with the given pattern, and the filter criteria block of such entries.\<close>

definition filterEntry :: "string \<Rightarrow> tfval" where
  "filterEntry pattern = TFMap (Some [''pattern'' \<mapsto> TFString pattern])"

definition filterCriteriaBlock :: "string list \<Rightarrow> tfval" where
  "filterCriteriaBlock patterns = oneBlock [''filter'' \<mapsto> TFList (Some (map filterEntry patterns))]"

text \<open>
  The \<^verbatim>\<open>source_parameters\<close> node that holds a variant's block and a filter criteria
  block.
\<close>

definition sourceParametersNodeWithFilters :: "variantBlock \<Rightarrow> string list \<Rightarrow> tfmap" where
  "sourceParametersNodeWithFilters b patterns =
     (sourceParametersNode b)(''filter_criteria'' \<mapsto> filterCriteriaBlock patterns)"

section \<open>Properties of the mapper\<close>

subsection \<open>Filters\<close>

lemma flattenFiltersLoop_Some:
  "flattenFiltersLoop (Some acc) xs = Some (acc @ map (\<lambda>f. TFMap (Some (flattenFilter f))) xs)"
  by (induction xs arbitrary: acc) (simp_all add: appendSlice_def)

lemma flattenFilters_Cons:
  "flattenFilters (Some (x # xs)) = Some (map (\<lambda>f. TFMap (Some (flattenFilter f))) (x # xs))"
  by (simp add: flattenFilters_def appendSlice_def flattenFiltersLoop_Some)

text \<open>
  C9. \<^verbatim>\<open>flattenFilters\<close> keeps the count and the order of the filters: a non-empty list
  gives a list of the same length whose i-th element is the flattening of the i-th filter,
  a map that has the key \<^verbatim>\<open>pattern\<close> exactly when the filter's pattern is not nil (and no
  other key); the nil list and the empty list give nil.
\<close>

theorem flattenFilters_preserves_count_and_order:
  "flattenFilters None = None \<and> flattenFilters (Some []) = None \<and>
   (xs \<noteq> [] \<longrightarrow>
      (\<exists>ys. flattenFilters (Some xs) = Some ys \<and> length ys = length xs \<and>
            (\<forall>i < length xs. ys ! i = TFMap (Some (flattenFilter (xs ! i)))))) \<and>
   (''pattern'' \<in> dom (flattenFilter f) \<longleftrightarrow> Pattern f \<noteq> None) \<and>
   dom (flattenFilter f) \<subseteq> {''pattern''}"
proof -
  have nil: "flattenFilters None = None" "flattenFilters (Some []) = None"
    by (simp_all add: flattenFilters_def)
  have loop: "xs \<noteq> [] \<longrightarrow>
      (\<exists>ys. flattenFilters (Some xs) = Some ys \<and> length ys = length xs \<and>
            (\<forall>i < length xs. ys ! i = TFMap (Some (flattenFilter (xs ! i)))))"
  proof (cases xs)
    case Nil
    then show ?thesis by simp
  next
    case (Cons a list)
    have "flattenFilters (Some xs) = Some (map (\<lambda>f. TFMap (Some (flattenFilter f))) xs)"
      unfolding Cons by (rule flattenFilters_Cons)
    then show ?thesis by simp
  qed
  have key: "''pattern'' \<in> dom (flattenFilter f) \<longleftrightarrow> Pattern f \<noteq> None"
    by (simp add: flattenFilter_def putString_def dom_def split: option.splits)
  have keys: "dom (flattenFilter f) \<subseteq> {''pattern''}"
    by (simp add: flattenFilter_def putString_def split: option.splits)
  from nil loop key keys show ?thesis by blast
qed

theorem flattenFilters_witness:
  "[\<lparr>Pattern = Some ''a''\<rparr>, \<lparr>Pattern = None\<rparr>] \<noteq> [] \<and>
   flattenFilters (Some [\<lparr>Pattern = Some ''a''\<rparr>, \<lparr>Pattern = None\<rparr>]) =
     Some [TFMap (Some [''pattern'' \<mapsto> TFString ''a'']), TFMap (Some Map.empty)]"
  using flattenFilters_preserves_count_and_order
          [of "[\<lparr>Pattern = Some ''a''\<rparr>, \<lparr>Pattern = None\<rparr>]" "\<lparr>Pattern = None\<rparr>"]
  by (auto simp add: flattenFilter_def putString_def nth_Cons' list_eq_iff_nth_eq less_Suc_eq)

subsection \<open>Nil typed objects\<close>

text \<open>
  C4. Every flatten function that takes a pointer, an interface value or a slice returns
  nil on nil, without a panic: the top-level flatten, the one of each variant, and the ones
  of the filter criteria, the filter list, the dead-letter configuration and the two kinds
  of credentials.
\<close>

theorem flatten_nil:
  "flattenPipeSourceParameters format None = Inr None \<and>
   flattenFilterCriteria None = None \<and>
   flattenFilters None = None \<and>
   flattenPipeSourceActiveMQBrokerParameters None = Inr None \<and>
   flattenMQBrokerAccessCredentialsMemberBasicAuth None = None \<and>
   flattenPipeSourceDynamoDBStreamParameters None = None \<and>
   flattenPipeSourceKinesisStreamParameters format None = None \<and>
   flattenPipeSourceManagedStreamingKafkaParameters None = Inr None \<and>
   flattenMSKAccessCredentials None = Inr None \<and>
   flattenPipeSourceSqsQueueParameters None = None \<and>
   flattenDeadLetterConfig None = None"
  by (simp add: flattenPipeSourceParameters_def flattenFilterCriteria_def flattenFilters_def
      flattenPipeSourceActiveMQBrokerParameters_def
      flattenMQBrokerAccessCredentialsMemberBasicAuth_def
      flattenPipeSourceDynamoDBStreamParameters_def flattenPipeSourceKinesisStreamParameters_def
      flattenPipeSourceManagedStreamingKafkaParameters_def flattenMSKAccessCredentials_def
      flattenPipeSourceSqsQueueParameters_def flattenDeadLetterConfig_def)

text \<open>
  An interface value that holds a nil pointer of a member type is not nil: for it
  \<^verbatim>\<open>flattenMSKAccessCredentials\<close> passes the nil check and reads \<^verbatim>\<open>Value\<close> through the
  pointer.
\<close>

lemma flattenMSKAccessCredentials_nil_member:
  "flattenMSKAccessCredentials (Some (MSKAccessCredentialsMemberClientCertificateTlsAuth None)) =
     Inl NilDereferencePanic \<and>
   flattenMSKAccessCredentials (Some (MSKAccessCredentialsMemberSaslScram512Auth None)) =
     Inl NilDereferencePanic"
  by (simp add: flattenMSKAccessCredentials_def)

subsection \<open>Credentials\<close>

text \<open>
  C3. When a managed-streaming Kafka credentials map sets both
  \<^verbatim>\<open>client_certificate_tls_auth\<close> and \<^verbatim>\<open>sasl_scram_512_auth\<close> to non-empty strings,
  \<^verbatim>\<open>expandMSKAccessCredentials\<close> returns the client-certificate member with its value;
  the SASL/SCRAM-512 value takes no part in the result.
\<close>

theorem expandMSKAccessCredentials_first_wins:
  assumes "tfMap ''client_certificate_tls_auth'' = Some (TFString cert)" and "cert \<noteq> []"
    and "tfMap ''sasl_scram_512_auth'' = Some (TFString scram)" and "scram \<noteq> []"
  shows "expandMSKAccessCredentials (Some tfMap) =
           Some (MSKAccessCredentialsMemberClientCertificateTlsAuth (Some cert))"
  using assms by (simp add: expandMSKAccessCredentials_def index_def stringField_def)

theorem expandMSKAccessCredentials_first_wins_witness:
  "expandMSKAccessCredentials
     (Some [''client_certificate_tls_auth'' \<mapsto> TFString ''arn:cert'',
            ''sasl_scram_512_auth'' \<mapsto> TFString ''arn:scram'']) =
   Some (MSKAccessCredentialsMemberClientCertificateTlsAuth (Some ''arn:cert''))"
  using expandMSKAccessCredentials_first_wins
          [of "[''client_certificate_tls_auth'' \<mapsto> TFString ''arn:cert'',
                ''sasl_scram_512_auth'' \<mapsto> TFString ''arn:scram'']" "''arn:cert''" "''arn:scram''"]
  by simp

text \<open>
  C10. \<^verbatim>\<open>flattenPipeSourceActiveMQBrokerParameters\<close> asserts the credentials to be the
  basic-auth member without checking. When the field is nil or holds that member, the
  function returns a map; when it holds any other type, the assertion panics.
\<close>

theorem flattenActiveMQ_total_iff_basic_auth:
  "((amq_Credentials a = None \<or>
     (\<exists>p. amq_Credentials a = Some (MQBrokerAccessCredentialsMemberBasicAuth p))) \<longrightarrow>
      (\<exists>tfMap. flattenPipeSourceActiveMQBrokerParameters (Some a) = Inr (Some tfMap))) \<and>
   (\<not> (amq_Credentials a = None \<or>
     (\<exists>p. amq_Credentials a = Some (MQBrokerAccessCredentialsMemberBasicAuth p))) \<longrightarrow>
      flattenPipeSourceActiveMQBrokerParameters (Some a) = Inl TypeAssertionPanic)"
  by (auto simp add: flattenPipeSourceActiveMQBrokerParameters_def andThen_def Let_def
      split: option.splits MQBrokerAccessCredentials.splits)

theorem flattenActiveMQ_total_witness:
  "(\<exists>tfMap. flattenPipeSourceActiveMQBrokerParameters
      (Some \<lparr>amq_BatchSize = Some 5,
             amq_Credentials = Some (MQBrokerAccessCredentialsMemberBasicAuth (Some ''arn'')),
             amq_MaximumBatchingWindowInSeconds = None,
             amq_QueueName = Some ''q''\<rparr>) = Inr (Some tfMap)) \<and>
   flattenPipeSourceActiveMQBrokerParameters
      (Some \<lparr>amq_BatchSize = Some 5,
             amq_Credentials = Some (MQBrokerAccessCredentialsUnknownUnionMember ''tag''),
             amq_MaximumBatchingWindowInSeconds = None,
             amq_QueueName = Some ''q''\<rparr>) = Inl TypeAssertionPanic"
  using flattenActiveMQ_total_iff_basic_auth
          [of "\<lparr>amq_BatchSize = Some 5,
             amq_Credentials = Some (MQBrokerAccessCredentialsMemberBasicAuth (Some ''arn'')),
             amq_MaximumBatchingWindowInSeconds = None,
             amq_QueueName = Some ''q''\<rparr>"]
        flattenActiveMQ_total_iff_basic_auth
          [of "\<lparr>amq_BatchSize = Some 5,
             amq_Credentials = Some (MQBrokerAccessCredentialsUnknownUnionMember ''tag''),
             amq_MaximumBatchingWindowInSeconds = None,
             amq_QueueName = Some ''q''\<rparr>"]
  by simp

subsection \<open>Guards of the expand functions\<close>

lemma blockField_asserts:
  "blockAsserts x \<Longrightarrow>
     blockField expand x =
       Inr (case firstElem x of Some (TFMap m) \<Rightarrow> expand m | _ \<Rightarrow> None)"
  by (auto simp add: blockAsserts_def blockField_def assertMap_def andThen_def
      split: option.splits tfval.splits)

lemma blockFieldP_asserts:
  "blockAsserts x \<Longrightarrow>
     blockFieldP expand x =
       (case firstElem x of Some (TFMap m) \<Rightarrow> expand m | _ \<Rightarrow> Inr None)"
  by (auto simp add: blockAsserts_def blockFieldP_def assertMap_def andThen_def
      split: option.splits tfval.splits)

lemma blockField_panics:
  "\<not> blockAsserts x \<Longrightarrow> blockField expand x = Inl TypeAssertionPanic"
  by (auto simp add: blockAsserts_def blockField_def assertMap_def andThen_def
      split: option.splits tfval.splits)

lemma firstElem_TFNil [simp]: "firstElem TFNil = None"
  by (simp add: firstElem_def)

lemma firstElem_singleton_map [simp]: "firstElem (TFList (Some [TFMap m])) = Some (TFMap m)"
  by (simp add: firstElem_def)

text \<open>
  C2. In \<^verbatim>\<open>expandPipeSourceKinesisStreamParameters\<close>, a non-empty
  \<^verbatim>\<open>starting_position_timestamp\<close> that \<^verbatim>\<open>time.Parse\<close> rejects (returning, as the library
  does, the zero time and an error) is accepted: the error is dropped and
  \<^verbatim>\<open>StartingPositionTimestamp\<close> points to the zero time. The only failure the function
  has is the panic of the dead-letter block's type assertion, whatever the timestamp.
\<close>

theorem expandKinesis_discards_parse_error:
  assumes "tfMap ''starting_position_timestamp'' = Some (TFString v)" and "v \<noteq> []"
    and "parse v = (zeroTime, Some err)"
  shows "(blockAsserts (index tfMap ''dead_letter_config'') \<longrightarrow>
            (\<exists>apiObject.
               expandPipeSourceKinesisStreamParameters parse (Some tfMap) = Inr (Some apiObject) \<and>
               kin_StartingPositionTimestamp apiObject = Some zeroTime)) \<and>
         (\<not> blockAsserts (index tfMap ''dead_letter_config'') \<longrightarrow>
            expandPipeSourceKinesisStreamParameters parse (Some tfMap) = Inl TypeAssertionPanic)"
  using assms
  by (simp add: expandPipeSourceKinesisStreamParameters_def blockField_asserts blockField_panics
      andThen_def timeField_def index_def)

theorem expandKinesis_discards_parse_error_witness:
  "(\<exists>apiObject.
     expandPipeSourceKinesisStreamParameters sampleParse
       (Some [''starting_position'' \<mapsto> TFString ''AT_TIMESTAMP'',
              ''starting_position_timestamp'' \<mapsto> TFString ''yesterday'']) = Inr (Some apiObject) \<and>
     kin_StartingPositionTimestamp apiObject = Some zeroTime) \<and>
   expandPipeSourceKinesisStreamParameters sampleParse
       (Some [''dead_letter_config'' \<mapsto> TFList (Some [TFString ''arn'']),
              ''starting_position_timestamp'' \<mapsto> TFString ''yesterday'']) = Inl TypeAssertionPanic"
  using expandKinesis_discards_parse_error
          [of "[''starting_position'' \<mapsto> TFString ''AT_TIMESTAMP'',
                ''starting_position_timestamp'' \<mapsto> TFString ''yesterday'']"
              "''yesterday''" sampleParse "''parsing time: cannot parse''"]
        expandKinesis_discards_parse_error
          [of "[''dead_letter_config'' \<mapsto> TFList (Some [TFString ''arn'']),
                ''starting_position_timestamp'' \<mapsto> TFString ''yesterday'']"
              "''yesterday''" sampleParse "''parsing time: cannot parse''"]
  by (simp add: sampleParse_def blockAsserts_def firstElem_def index_def)

subsection \<open>Zero values\<close>

lemma zero_unset_sqs:
  "\<exists>a. expandPipeSourceSqsQueueParameters (Some tfMap) = Some a \<and>
        (index tfMap ''batch_size'' = TFInt 0 \<longrightarrow> sqs_BatchSize a = None) \<and>
        (index tfMap ''maximum_batching_window_in_seconds'' = TFInt 0 \<longrightarrow>
           sqs_MaximumBatchingWindowInSeconds a = None)"
  by (simp add: expandPipeSourceSqsQueueParameters_def int32Field_def)

lemma zero_unset_activemq:
  assumes "blockAsserts (index tfMap ''credentials'')"
  shows "\<exists>a. expandPipeSourceActiveMQBrokerParameters (Some tfMap) = Inr (Some a) \<and>
        (index tfMap ''batch_size'' = TFInt 0 \<longrightarrow> amq_BatchSize a = None) \<and>
        (index tfMap ''maximum_batching_window_in_seconds'' = TFInt 0 \<longrightarrow>
           amq_MaximumBatchingWindowInSeconds a = None) \<and>
        (index tfMap ''queue_name'' = TFString [] \<longrightarrow> amq_QueueName a = None) \<and>
        (\<forall>inner. index tfMap ''credentials'' = TFList (Some [TFMap (Some inner)]) \<longrightarrow>
           amq_Credentials a =
             Some (MQBrokerAccessCredentialsMemberBasicAuth
                     (Some (case index inner ''basic_auth'' of TFString v \<Rightarrow> v | _ \<Rightarrow> []))))"
  using assms
  by (auto simp add: expandPipeSourceActiveMQBrokerParameters_def blockField_asserts andThen_def
      int32Field_def stringField_def enumField_def
      expandMQBrokerAccessCredentialsMemberBasicAuth_def split: tfval.splits)

lemma zero_unset_dynamodb:
  assumes "blockAsserts (index tfMap ''dead_letter_config'')"
  shows "\<exists>a. expandPipeSourceDynamoDBStreamParameters (Some tfMap) = Inr (Some a) \<and>
        (index tfMap ''batch_size'' = TFInt 0 \<longrightarrow> ddb_BatchSize a = None) \<and>
        (index tfMap ''maximum_batching_window_in_seconds'' = TFInt 0 \<longrightarrow>
           ddb_MaximumBatchingWindowInSeconds a = None) \<and>
        (index tfMap ''maximum_record_age_in_seconds'' = TFInt 0 \<longrightarrow>
           ddb_MaximumRecordAgeInSeconds a = None) \<and>
        (index tfMap ''maximum_retry_attempts'' = TFInt 0 \<longrightarrow> ddb_MaximumRetryAttempts a = None) \<and>
        (index tfMap ''parallelization_factor'' = TFInt 0 \<longrightarrow> ddb_ParallelizationFactor a = None) \<and>
        (index tfMap ''on_partial_batch_item_failure'' = TFString [] \<longrightarrow>
           ddb_OnPartialBatchItemFailure a = []) \<and>
        (index tfMap ''starting_position'' = TFString [] \<longrightarrow> ddb_StartingPosition a = []) \<and>
        (\<forall>inner. index tfMap ''dead_letter_config'' = TFList (Some [TFMap (Some inner)]) \<longrightarrow>
           ddb_DeadLetterConfig a =
             Some \<lparr>Arn = (case index inner ''arn'' of
                            TFString v \<Rightarrow> if v = [] then None else Some v
                          | _ \<Rightarrow> None)\<rparr>)"
  using assms
  by (auto simp add: expandPipeSourceDynamoDBStreamParameters_def blockField_asserts andThen_def
      int32Field_def stringField_def enumField_def expandDeadLetterConfig_def split: tfval.splits)

lemma zero_unset_kinesis:
  assumes "blockAsserts (index tfMap ''dead_letter_config'')"
  shows "\<exists>a. expandPipeSourceKinesisStreamParameters parse (Some tfMap) = Inr (Some a) \<and>
        (index tfMap ''batch_size'' = TFInt 0 \<longrightarrow> kin_BatchSize a = None) \<and>
        (index tfMap ''maximum_batching_window_in_seconds'' = TFInt 0 \<longrightarrow>
           kin_MaximumBatchingWindowInSeconds a = None) \<and>
        (index tfMap ''maximum_record_age_in_seconds'' = TFInt 0 \<longrightarrow>
           kin_MaximumRecordAgeInSeconds a = None) \<and>
        (index tfMap ''maximum_retry_attempts'' = TFInt 0 \<longrightarrow> kin_MaximumRetryAttempts a = None) \<and>
        (index tfMap ''parallelization_factor'' = TFInt 0 \<longrightarrow> kin_ParallelizationFactor a = None) \<and>
        (index tfMap ''on_partial_batch_item_failure'' = TFString [] \<longrightarrow>
           kin_OnPartialBatchItemFailure a = []) \<and>
        (index tfMap ''starting_position'' = TFString [] \<longrightarrow> kin_StartingPosition a = []) \<and>
        (index tfMap ''starting_position_timestamp'' = TFString [] \<longrightarrow>
           kin_StartingPositionTimestamp a = None) \<and>
        (\<forall>inner. index tfMap ''dead_letter_config'' = TFList (Some [TFMap (Some inner)]) \<longrightarrow>
           kin_DeadLetterConfig a =
             Some \<lparr>Arn = (case index inner ''arn'' of
                            TFString v \<Rightarrow> if v = [] then None else Some v
                          | _ \<Rightarrow> None)\<rparr>)"
  using assms
  by (auto simp add: expandPipeSourceKinesisStreamParameters_def blockField_asserts andThen_def
      int32Field_def stringField_def enumField_def timeField_def expandDeadLetterConfig_def
      split: tfval.splits)

lemma zero_unset_msk:
  assumes "blockAsserts (index tfMap ''credentials'')"
  shows "\<exists>a. expandPipeSourceManagedStreamingKafkaParameters (Some tfMap) = Inr (Some a) \<and>
        (index tfMap ''batch_size'' = TFInt 0 \<longrightarrow> msk_BatchSize a = None) \<and>
        (index tfMap ''maximum_batching_window_in_seconds'' = TFInt 0 \<longrightarrow>
           msk_MaximumBatchingWindowInSeconds a = None) \<and>
        (index tfMap ''consumer_group_id'' = TFString [] \<longrightarrow> msk_ConsumerGroupID a = None) \<and>
        (index tfMap ''starting_position'' = TFString [] \<longrightarrow> msk_StartingPosition a = []) \<and>
        (index tfMap ''topic_name'' = TFString [] \<longrightarrow> msk_TopicName a = None) \<and>
        (\<forall>inner. index tfMap ''credentials'' = TFList (Some [TFMap (Some inner)]) \<longrightarrow>
           msk_Credentials a = expandMSKAccessCredentials (Some inner) \<and>
           (index inner ''client_certificate_tls_auth'' = TFString [] \<and>
            index inner ''sasl_scram_512_auth'' = TFString [] \<longrightarrow> msk_Credentials a = None))"
  using assms
  by (auto simp add: expandPipeSourceManagedStreamingKafkaParameters_def blockField_asserts
      andThen_def int32Field_def stringField_def enumField_def expandMSKAccessCredentials_def
      split: tfval.splits)

text \<open>
  C5. For every configuration map given to one of the five per-variant expand functions,
  an integer attribute equal to 0 and a string attribute equal to the empty string leave
  the field of the typed result unset (a nil pointer, the empty enum value), and a
  one-element list holding a map is unwrapped: the nested object is built from that map.
  The ActiveMQ and managed-streaming Kafka functions assert the \<^verbatim>\<open>credentials\<close> element
  to be a map, the DynamoDB and Kinesis ones the \<^verbatim>\<open>dead_letter_config\<close> element.
\<close>

theorem expand_leaves_zero_values_unset:
   "(\<exists>a. expandPipeSourceSqsQueueParameters (Some tfMap) = Some a \<and>
        (index tfMap ''batch_size'' = TFInt 0 \<longrightarrow> sqs_BatchSize a = None) \<and>
        (index tfMap ''maximum_batching_window_in_seconds'' = TFInt 0 \<longrightarrow>
           sqs_MaximumBatchingWindowInSeconds a = None)) \<and>
    (blockAsserts (index tfMap ''credentials'') \<longrightarrow>
     (\<exists>a. expandPipeSourceActiveMQBrokerParameters (Some tfMap) = Inr (Some a) \<and>
        (index tfMap ''batch_size'' = TFInt 0 \<longrightarrow> amq_BatchSize a = None) \<and>
        (index tfMap ''maximum_batching_window_in_seconds'' = TFInt 0 \<longrightarrow>
           amq_MaximumBatchingWindowInSeconds a = None) \<and>
        (index tfMap ''queue_name'' = TFString [] \<longrightarrow> amq_QueueName a = None) \<and>
        (\<forall>inner. index tfMap ''credentials'' = TFList (Some [TFMap (Some inner)]) \<longrightarrow>
           amq_Credentials a =
             Some (MQBrokerAccessCredentialsMemberBasicAuth
                     (Some (case index inner ''basic_auth'' of TFString v \<Rightarrow> v | _ \<Rightarrow> [])))))) \<and>
    (blockAsserts (index tfMap ''dead_letter_config'') \<longrightarrow>
     (\<exists>a. expandPipeSourceDynamoDBStreamParameters (Some tfMap) = Inr (Some a) \<and>
        (index tfMap ''batch_size'' = TFInt 0 \<longrightarrow> ddb_BatchSize a = None) \<and>
        (index tfMap ''maximum_batching_window_in_seconds'' = TFInt 0 \<longrightarrow>
           ddb_MaximumBatchingWindowInSeconds a = None) \<and>
        (index tfMap ''maximum_record_age_in_seconds'' = TFInt 0 \<longrightarrow>
           ddb_MaximumRecordAgeInSeconds a = None) \<and>
        (index tfMap ''maximum_retry_attempts'' = TFInt 0 \<longrightarrow> ddb_MaximumRetryAttempts a = None) \<and>
        (index tfMap ''parallelization_factor'' = TFInt 0 \<longrightarrow> ddb_ParallelizationFactor a = None) \<and>
        (index tfMap ''on_partial_batch_item_failure'' = TFString [] \<longrightarrow>
           ddb_OnPartialBatchItemFailure a = []) \<and>
        (index tfMap ''starting_position'' = TFString [] \<longrightarrow> ddb_StartingPosition a = []) \<and>
        (\<forall>inner. index tfMap ''dead_letter_config'' = TFList (Some [TFMap (Some inner)]) \<longrightarrow>
           ddb_DeadLetterConfig a =
             Some \<lparr>Arn = (case index inner ''arn'' of
                            TFString v \<Rightarrow> if v = [] then None else Some v
                          | _ \<Rightarrow> None)\<rparr>))) \<and>
    (blockAsserts (index tfMap ''dead_letter_config'') \<longrightarrow>
     (\<exists>a. expandPipeSourceKinesisStreamParameters parse (Some tfMap) = Inr (Some a) \<and>
        (index tfMap ''batch_size'' = TFInt 0 \<longrightarrow> kin_BatchSize a = None) \<and>
        (index tfMap ''maximum_batching_window_in_seconds'' = TFInt 0 \<longrightarrow>
           kin_MaximumBatchingWindowInSeconds a = None) \<and>
        (index tfMap ''maximum_record_age_in_seconds'' = TFInt 0 \<longrightarrow>
           kin_MaximumRecordAgeInSeconds a = None) \<and>
        (index tfMap ''maximum_retry_attempts'' = TFInt 0 \<longrightarrow> kin_MaximumRetryAttempts a = None) \<and>
        (index tfMap ''parallelization_factor'' = TFInt 0 \<longrightarrow> kin_ParallelizationFactor a = None) \<and>
        (index tfMap ''on_partial_batch_item_failure'' = TFString [] \<longrightarrow>
           kin_OnPartialBatchItemFailure a = []) \<and>
        (index tfMap ''starting_position'' = TFString [] \<longrightarrow> kin_StartingPosition a = []) \<and>
        (index tfMap ''starting_position_timestamp'' = TFString [] \<longrightarrow>
           kin_StartingPositionTimestamp a = None) \<and>
        (\<forall>inner. index tfMap ''dead_letter_config'' = TFList (Some [TFMap (Some inner)]) \<longrightarrow>
           kin_DeadLetterConfig a =
             Some \<lparr>Arn = (case index inner ''arn'' of
                            TFString v \<Rightarrow> if v = [] then None else Some v
                          | _ \<Rightarrow> None)\<rparr>))) \<and>
    (blockAsserts (index tfMap ''credentials'') \<longrightarrow>
     (\<exists>a. expandPipeSourceManagedStreamingKafkaParameters (Some tfMap) = Inr (Some a) \<and>
        (index tfMap ''batch_size'' = TFInt 0 \<longrightarrow> msk_BatchSize a = None) \<and>
        (index tfMap ''maximum_batching_window_in_seconds'' = TFInt 0 \<longrightarrow>
           msk_MaximumBatchingWindowInSeconds a = None) \<and>
        (index tfMap ''consumer_group_id'' = TFString [] \<longrightarrow> msk_ConsumerGroupID a = None) \<and>
        (index tfMap ''starting_position'' = TFString [] \<longrightarrow> msk_StartingPosition a = []) \<and>
        (index tfMap ''topic_name'' = TFString [] \<longrightarrow> msk_TopicName a = None) \<and>
        (\<forall>inner. index tfMap ''credentials'' = TFList (Some [TFMap (Some inner)]) \<longrightarrow>
           msk_Credentials a = expandMSKAccessCredentials (Some inner) \<and>
           (index inner ''client_certificate_tls_auth'' = TFString [] \<and>
            index inner ''sasl_scram_512_auth'' = TFString [] \<longrightarrow> msk_Credentials a = None))))"
proof (intro conjI impI)
  show "\<exists>a. expandPipeSourceSqsQueueParameters (Some tfMap) = Some a \<and>
        (index tfMap ''batch_size'' = TFInt 0 \<longrightarrow> sqs_BatchSize a = None) \<and>
        (index tfMap ''maximum_batching_window_in_seconds'' = TFInt 0 \<longrightarrow>
           sqs_MaximumBatchingWindowInSeconds a = None)"
    by (rule zero_unset_sqs)
qed (erule zero_unset_activemq zero_unset_dynamodb zero_unset_kinesis zero_unset_msk)+

theorem expand_leaves_zero_values_unset_witness:
  "blockAsserts (index [''batch_size'' \<mapsto> TFInt 0,
                        ''dead_letter_config'' \<mapsto>
                          TFList (Some [TFMap (Some [''arn'' \<mapsto> TFString ''arn:dlq''])]),
                        ''starting_position'' \<mapsto> TFString []] ''credentials'') \<and>
   blockAsserts (index [''batch_size'' \<mapsto> TFInt 0,
                        ''dead_letter_config'' \<mapsto>
                          TFList (Some [TFMap (Some [''arn'' \<mapsto> TFString ''arn:dlq''])]),
                        ''starting_position'' \<mapsto> TFString []] ''dead_letter_config'') \<and>
   (\<exists>a. expandPipeSourceKinesisStreamParameters sampleParse
          (Some [''batch_size'' \<mapsto> TFInt 0,
                 ''dead_letter_config'' \<mapsto>
                   TFList (Some [TFMap (Some [''arn'' \<mapsto> TFString ''arn:dlq''])]),
                 ''starting_position'' \<mapsto> TFString []]) = Inr (Some a) \<and>
        kin_BatchSize a = None \<and> kin_StartingPosition a = [] \<and>
        kin_DeadLetterConfig a = Some \<lparr>Arn = Some ''arn:dlq''\<rparr>)"
  using expand_leaves_zero_values_unset
          [of "[''batch_size'' \<mapsto> TFInt 0,
                ''dead_letter_config'' \<mapsto>
                  TFList (Some [TFMap (Some [''arn'' \<mapsto> TFString ''arn:dlq''])]),
                ''starting_position'' \<mapsto> TFString []]" sampleParse]
  by (auto simp add: blockAsserts_def firstElem_def index_def)

subsection \<open>Co-present variants\<close>

lemma blockFieldP_populates:
  assumes "blockAsserts x"
    and "expand None = Inr None"
    and "\<And>inner. firstElem x = Some (TFMap (Some inner)) \<Longrightarrow> \<exists>a. expand (Some inner) = Inr (Some a)"
  shows "\<exists>r. blockFieldP expand x = Inr r \<and> (r \<noteq> None \<longleftrightarrow> holdsMap x)"
proof (cases "firstElem x")
  case None
  then show ?thesis by (simp add: blockFieldP_def holdsMap_def)
next
  case (Some e)
  with assms(1) obtain m where e: "e = TFMap m"
    by (auto simp add: blockAsserts_def split: tfval.splits)
  show ?thesis
  proof (cases m)
    case None
    with Some e assms(2) show ?thesis
      by (simp add: blockFieldP_def holdsMap_def assertMap_def andThen_def)
  next
    case (Some inner)
    with \<open>firstElem x = Some e\<close> e assms(3)[of inner] show ?thesis
      by (auto simp add: blockFieldP_def holdsMap_def assertMap_def andThen_def)
  qed
qed

lemma blockField_populates:
  assumes "blockAsserts x"
    and "expand None = None"
    and "\<And>inner. expand (Some inner) \<noteq> None"
  shows "\<exists>r. blockField expand x = Inr r \<and> (r \<noteq> None \<longleftrightarrow> holdsMap x)"
  using assms
  by (auto simp add: blockField_asserts holdsMap_def blockAsserts_def
      split: option.splits tfval.splits)

lemma expandActiveMQ_returns:
  "blockAsserts (index inner ''credentials'') \<Longrightarrow>
     \<exists>a. expandPipeSourceActiveMQBrokerParameters (Some inner) = Inr (Some a)"
  by (simp add: expandPipeSourceActiveMQBrokerParameters_def blockField_asserts andThen_def)

lemma expandDynamoDB_returns:
  "blockAsserts (index inner ''dead_letter_config'') \<Longrightarrow>
     \<exists>a. expandPipeSourceDynamoDBStreamParameters (Some inner) = Inr (Some a)"
  by (simp add: expandPipeSourceDynamoDBStreamParameters_def blockField_asserts andThen_def)

lemma expandKinesis_returns:
  "blockAsserts (index inner ''dead_letter_config'') \<Longrightarrow>
     \<exists>a. expandPipeSourceKinesisStreamParameters parse (Some inner) = Inr (Some a)"
  by (simp add: expandPipeSourceKinesisStreamParameters_def blockField_asserts andThen_def)

lemma expandMSK_returns:
  "blockAsserts (index inner ''credentials'') \<Longrightarrow>
     \<exists>a. expandPipeSourceManagedStreamingKafkaParameters (Some inner) = Inr (Some a)"
  by (simp add: expandPipeSourceManagedStreamingKafkaParameters_def blockField_asserts andThen_def)

text \<open>
  C6, for well-typed blocks. \<^verbatim>\<open>expandPipeSourceParameters\<close> does not reject co-present
  variants.
  For every configuration map whose blocks are well typed (wherever a guard holds, the
  element is a map, also for the nested credentials and dead-letter blocks), it returns
  normally, and for each of the five keys it reads (ActiveMQ, DynamoDB, Kinesis,
  managed-streaming Kafka, SQS) the field of the result is set exactly when the key holds
  a list whose first element is a map that is not nil, for any number of them at once.
\<close>

theorem expand_accepts_copresent_variants:
  assumes top: "blockAsserts (index tfMap ''activemq_broker_parameters'')"
      "blockAsserts (index tfMap ''dynamodb_stream_parameters'')"
      "blockAsserts (index tfMap ''filter_criteria'')"
      "blockAsserts (index tfMap ''kinesis_stream_parameters'')"
      "blockAsserts (index tfMap ''managed_streaming_kafka_parameters'')"
      "blockAsserts (index tfMap ''sqs_queue_parameters'')"
    and nested: "nestedAsserts ''credentials'' (index tfMap ''activemq_broker_parameters'')"
      "nestedAsserts ''dead_letter_config'' (index tfMap ''dynamodb_stream_parameters'')"
      "nestedAsserts ''dead_letter_config'' (index tfMap ''kinesis_stream_parameters'')"
      "nestedAsserts ''credentials'' (index tfMap ''managed_streaming_kafka_parameters'')"
  shows "\<exists>a. expandPipeSourceParameters parse (Some tfMap) = Inr (Some a) \<and>
          (ActiveMQBrokerParameters a \<noteq> None \<longleftrightarrow>
             holdsMap (index tfMap ''activemq_broker_parameters'')) \<and>
          (DynamoDBStreamParameters a \<noteq> None \<longleftrightarrow>
             holdsMap (index tfMap ''dynamodb_stream_parameters'')) \<and>
          (KinesisStreamParameters a \<noteq> None \<longleftrightarrow>
             holdsMap (index tfMap ''kinesis_stream_parameters'')) \<and>
          (ManagedStreamingKafkaParameters a \<noteq> None \<longleftrightarrow>
             holdsMap (index tfMap ''managed_streaming_kafka_parameters'')) \<and>
          (SqsQueueParameters a \<noteq> None \<longleftrightarrow>
             holdsMap (index tfMap ''sqs_queue_parameters''))"
proof -
  have "\<exists>r. blockFieldP expandPipeSourceActiveMQBrokerParameters
          (index tfMap ''activemq_broker_parameters'') = Inr r \<and>
        (r \<noteq> None \<longleftrightarrow> holdsMap (index tfMap ''activemq_broker_parameters''))"
  proof (rule blockFieldP_populates [OF top(1)])
    show "expandPipeSourceActiveMQBrokerParameters None = Inr None"
      by (simp add: expandPipeSourceActiveMQBrokerParameters_def)
  next
    fix inner
    assume "firstElem (index tfMap ''activemq_broker_parameters'') = Some (TFMap (Some inner))"
    with nested(1) have "blockAsserts (index inner ''credentials'')"
      by (simp add: nestedAsserts_def)
    then show "\<exists>a. expandPipeSourceActiveMQBrokerParameters (Some inner) = Inr (Some a)"
      by (rule expandActiveMQ_returns)
  qed
  then obtain r1 where r1: "blockFieldP expandPipeSourceActiveMQBrokerParameters
        (index tfMap ''activemq_broker_parameters'') = Inr r1"
      "r1 \<noteq> None \<longleftrightarrow> holdsMap (index tfMap ''activemq_broker_parameters'')"
    by blast
  have "\<exists>r. blockFieldP expandPipeSourceDynamoDBStreamParameters
          (index tfMap ''dynamodb_stream_parameters'') = Inr r \<and>
        (r \<noteq> None \<longleftrightarrow> holdsMap (index tfMap ''dynamodb_stream_parameters''))"
  proof (rule blockFieldP_populates [OF top(2)])
    show "expandPipeSourceDynamoDBStreamParameters None = Inr None"
      by (simp add: expandPipeSourceDynamoDBStreamParameters_def)
  next
    fix inner
    assume "firstElem (index tfMap ''dynamodb_stream_parameters'') = Some (TFMap (Some inner))"
    with nested(2) have "blockAsserts (index inner ''dead_letter_config'')"
      by (simp add: nestedAsserts_def)
    then show "\<exists>a. expandPipeSourceDynamoDBStreamParameters (Some inner) = Inr (Some a)"
      by (rule expandDynamoDB_returns)
  qed
  then obtain r2 where r2: "blockFieldP expandPipeSourceDynamoDBStreamParameters
        (index tfMap ''dynamodb_stream_parameters'') = Inr r2"
      "r2 \<noteq> None \<longleftrightarrow> holdsMap (index tfMap ''dynamodb_stream_parameters'')"
    by blast
  obtain r3 where r3: "blockField expandFilterCriteria (index tfMap ''filter_criteria'') = Inr r3"
    using top(3) by (simp add: blockField_asserts)
  have "\<exists>r. blockFieldP (expandPipeSourceKinesisStreamParameters parse)
          (index tfMap ''kinesis_stream_parameters'') = Inr r \<and>
        (r \<noteq> None \<longleftrightarrow> holdsMap (index tfMap ''kinesis_stream_parameters''))"
  proof (rule blockFieldP_populates [OF top(4)])
    show "expandPipeSourceKinesisStreamParameters parse None = Inr None"
      by (simp add: expandPipeSourceKinesisStreamParameters_def)
  next
    fix inner
    assume "firstElem (index tfMap ''kinesis_stream_parameters'') = Some (TFMap (Some inner))"
    with nested(3) have "blockAsserts (index inner ''dead_letter_config'')"
      by (simp add: nestedAsserts_def)
    then show "\<exists>a. expandPipeSourceKinesisStreamParameters parse (Some inner) = Inr (Some a)"
      by (rule expandKinesis_returns)
  qed
  then obtain r4 where r4: "blockFieldP (expandPipeSourceKinesisStreamParameters parse)
        (index tfMap ''kinesis_stream_parameters'') = Inr r4"
      "r4 \<noteq> None \<longleftrightarrow> holdsMap (index tfMap ''kinesis_stream_parameters'')"
    by blast
  have "\<exists>r. blockFieldP expandPipeSourceManagedStreamingKafkaParameters
          (index tfMap ''managed_streaming_kafka_parameters'') = Inr r \<and>
        (r \<noteq> None \<longleftrightarrow> holdsMap (index tfMap ''managed_streaming_kafka_parameters''))"
  proof (rule blockFieldP_populates [OF top(5)])
    show "expandPipeSourceManagedStreamingKafkaParameters None = Inr None"
      by (simp add: expandPipeSourceManagedStreamingKafkaParameters_def)
  next
    fix inner
    assume "firstElem (index tfMap ''managed_streaming_kafka_parameters'') =
              Some (TFMap (Some inner))"
    with nested(4) have "blockAsserts (index inner ''credentials'')"
      by (simp add: nestedAsserts_def)
    then show "\<exists>a. expandPipeSourceManagedStreamingKafkaParameters (Some inner) = Inr (Some a)"
      by (rule expandMSK_returns)
  qed
  then obtain r5 where r5: "blockFieldP expandPipeSourceManagedStreamingKafkaParameters
        (index tfMap ''managed_streaming_kafka_parameters'') = Inr r5"
      "r5 \<noteq> None \<longleftrightarrow> holdsMap (index tfMap ''managed_streaming_kafka_parameters'')"
    by blast
  have "\<exists>r. blockField expandPipeSourceSqsQueueParameters
          (index tfMap ''sqs_queue_parameters'') = Inr r \<and>
        (r \<noteq> None \<longleftrightarrow> holdsMap (index tfMap ''sqs_queue_parameters''))"
    by (rule blockField_populates [OF top(6)])
       (simp_all add: expandPipeSourceSqsQueueParameters_def)
  then obtain r6 where r6: "blockField expandPipeSourceSqsQueueParameters
        (index tfMap ''sqs_queue_parameters'') = Inr r6"
      "r6 \<noteq> None \<longleftrightarrow> holdsMap (index tfMap ''sqs_queue_parameters'')"
    by blast
  show ?thesis
    using r1 r2 r3 r4 r5 r6
    by (simp add: expandPipeSourceParameters_def andThen_def)
qed

theorem expand_accepts_copresent_variants_witness:
  "\<exists>a. expandPipeSourceParameters sampleParse
         (Some [''activemq_broker_parameters'' \<mapsto>
                  TFList (Some [TFMap (Some [''queue_name'' \<mapsto> TFString ''orders''])]),
                ''sqs_queue_parameters'' \<mapsto>
                  TFList (Some [TFMap (Some [''batch_size'' \<mapsto> TFInt 5])])]) = Inr (Some a) \<and>
       ActiveMQBrokerParameters a \<noteq> None \<and> SqsQueueParameters a \<noteq> None \<and>
       DynamoDBStreamParameters a = None \<and> KinesisStreamParameters a = None \<and>
       ManagedStreamingKafkaParameters a = None"
  using expand_accepts_copresent_variants
          [of "[''activemq_broker_parameters'' \<mapsto>
                  TFList (Some [TFMap (Some [''queue_name'' \<mapsto> TFString ''orders''])]),
                ''sqs_queue_parameters'' \<mapsto>
                  TFList (Some [TFMap (Some [''batch_size'' \<mapsto> TFInt 5])])]" sampleParse]
  by (auto simp add: blockAsserts_def nestedAsserts_def holdsMap_def firstElem_def index_def)

text \<open>
  C6 does not hold for every map in which variant keys hold non-empty lists: a key holding
  the one-element list of nil (what the schema layer passes for an empty block) is skipped
  by the guard \<^verbatim>\<open>v[0] != nil\<close>; an element that is not a map makes the unchecked assertion
  panic; and \<^verbatim>\<open>rabbit_mq_broker\<close> and \<^verbatim>\<open>self_managed_kafka\<close> are not read at all.
\<close>

theorem expand_copresence_counterexample:
  "expandPipeSourceParameters sampleParse
     (Some [''activemq_broker_parameters'' \<mapsto> TFList (Some [TFNil]),
            ''sqs_queue_parameters'' \<mapsto> TFList (Some [TFNil])]) =
     Inr (Some \<lparr>ActiveMQBrokerParameters = None, DynamoDBStreamParameters = None,
                FilterCriteriaOf = None, KinesisStreamParameters = None,
                ManagedStreamingKafkaParameters = None, RabbitMQBrokerParameters = None,
                SelfManagedKafkaParameters = None, SqsQueueParameters = None\<rparr>) \<and>
   expandPipeSourceParameters sampleParse
     (Some [''activemq_broker_parameters'' \<mapsto> TFList (Some [TFString ''orders'']),
            ''sqs_queue_parameters'' \<mapsto>
              TFList (Some [TFMap (Some [''batch_size'' \<mapsto> TFInt 5])])]) =
     Inl TypeAssertionPanic \<and>
   expandPipeSourceParameters sampleParse
     (Some [''rabbit_mq_broker'' \<mapsto>
              TFList (Some [TFMap (Some [''queue'' \<mapsto> TFString ''orders''])]),
            ''self_managed_kafka'' \<mapsto>
              TFList (Some [TFMap (Some [''topic'' \<mapsto> TFString ''events''])])]) =
     Inr (Some \<lparr>ActiveMQBrokerParameters = None, DynamoDBStreamParameters = None,
                FilterCriteriaOf = None, KinesisStreamParameters = None,
                ManagedStreamingKafkaParameters = None, RabbitMQBrokerParameters = None,
                SelfManagedKafkaParameters = None, SqsQueueParameters = None\<rparr>)"
  by (simp add: expandPipeSourceParameters_def blockFieldP_def blockField_def firstElem_def
      index_def assertMap_def andThen_def)

subsection \<open>Round trip\<close>

lemma sint_int32_roundtrip:
  "sint (word_of_int v :: int32) = v \<longleftrightarrow> - 2147483648 \<le> v \<and> v \<le> 2147483647"
proof -
  have "sint (word_of_int v :: int32) = signed_take_bit 31 v"
    by (simp add: signed_of_int)
  then show ?thesis
    by (auto simp add: signed_take_bit_int_eq_self_iff)
qed

lemma sint_fits [simp]: "fitsInt32 v \<Longrightarrow> sint (word_of_int v :: int32) = v"
  by (simp add: sint_int32_roundtrip fitsInt32_def)

lemma firstElem_oneBlock [simp]: "firstElem (oneBlock m) = Some (TFMap (Some m))"
  by (simp add: oneBlock_def firstElem_def)

lemma variant_activemq:
  assumes "nonZero (ActiveMQBrokerBlock b c w q)" "integersFit (ActiveMQBrokerBlock b c w q)"
  shows "\<exists>a. expandPipeSourceActiveMQBrokerParameters (Some (variantMap (ActiveMQBrokerBlock b c w q))) = Inr (Some a) \<and>
             flattenPipeSourceActiveMQBrokerParameters (Some a) = Inr (Some (variantMap (ActiveMQBrokerBlock b c w q)))"
  using assms
  by (simp add: expandPipeSourceActiveMQBrokerParameters_def
      flattenPipeSourceActiveMQBrokerParameters_def blockField_def assertMap_def
      expandMQBrokerAccessCredentialsMemberBasicAuth_def
      flattenMQBrokerAccessCredentialsMemberBasicAuth_def
      index_def int32Field_def stringField_def enumField_def putInt32_def putString_def
      putEnum_def andThen_def oneBlock_def)

lemma variant_dynamodb:
  assumes "nonZero (DynamoDBStreamBlock b d w g r f p s)" "integersFit (DynamoDBStreamBlock b d w g r f p s)"
  shows "\<exists>a. expandPipeSourceDynamoDBStreamParameters (Some (variantMap (DynamoDBStreamBlock b d w g r f p s))) = Inr (Some a) \<and>
             flattenPipeSourceDynamoDBStreamParameters (Some a) = Some (variantMap (DynamoDBStreamBlock b d w g r f p s))"
  using assms
  by (simp add: expandPipeSourceDynamoDBStreamParameters_def
      flattenPipeSourceDynamoDBStreamParameters_def blockField_def assertMap_def
      expandDeadLetterConfig_def flattenDeadLetterConfig_def putBlock_def
      index_def int32Field_def stringField_def enumField_def putInt32_def putString_def
      putEnum_def andThen_def oneBlock_def)

lemma variant_kinesis:
  assumes "nonZero (KinesisStreamBlock b d w g r f p s t)" "integersFit (KinesisStreamBlock b d w g r f p s t)"
    "timestampReprinted parse format (KinesisStreamBlock b d w g r f p s t)"
  shows "\<exists>a. expandPipeSourceKinesisStreamParameters parse (Some (variantMap (KinesisStreamBlock b d w g r f p s t))) = Inr (Some a) \<and>
             flattenPipeSourceKinesisStreamParameters format (Some a) = Some (variantMap (KinesisStreamBlock b d w g r f p s t))"
  using assms
  by (simp add: expandPipeSourceKinesisStreamParameters_def
      flattenPipeSourceKinesisStreamParameters_def blockField_def assertMap_def
      expandDeadLetterConfig_def flattenDeadLetterConfig_def putBlock_def timeField_def
      index_def int32Field_def stringField_def enumField_def putInt32_def putString_def
      putEnum_def andThen_def oneBlock_def)

lemma variant_msk:
  assumes "nonZero (ManagedStreamingKafkaBlock b g c w s t)" "integersFit (ManagedStreamingKafkaBlock b g c w s t)"
  shows "\<exists>a. expandPipeSourceManagedStreamingKafkaParameters (Some (variantMap (ManagedStreamingKafkaBlock b g c w s t))) = Inr (Some a) \<and>
             flattenPipeSourceManagedStreamingKafkaParameters (Some a) = Inr (Some (variantMap (ManagedStreamingKafkaBlock b g c w s t)))"
  using assms
  by (cases c)
     (simp_all add: expandPipeSourceManagedStreamingKafkaParameters_def
      flattenPipeSourceManagedStreamingKafkaParameters_def blockField_def assertMap_def
      expandMSKAccessCredentials_def flattenMSKAccessCredentials_def putBlockP_def
      index_def int32Field_def stringField_def enumField_def putInt32_def putString_def
      putEnum_def andThen_def oneBlock_def)

lemma variant_sqs:
  assumes "nonZero (SqsQueueBlock b w)" "integersFit (SqsQueueBlock b w)"
  shows "\<exists>a. expandPipeSourceSqsQueueParameters (Some (variantMap (SqsQueueBlock b w))) = Some a \<and>
             flattenPipeSourceSqsQueueParameters (Some a) = Some (variantMap (SqsQueueBlock b w))"
  using assms
  by (simp add: expandPipeSourceSqsQueueParameters_def flattenPipeSourceSqsQueueParameters_def
      index_def int32Field_def putInt32_def)

lemmas top_level_simps =
  oneBlock_def roundTrip_def sourceParametersNode_def expandPipeSourceParameters_def
  flattenPipeSourceParameters_def blockFieldP_def blockField_def putBlockP_def putBlock_def
  assertMap_def andThen_def index_def

lemma roundTrip_variant:
  assumes "nonZero b" and "integersFit b" and "timestampReprinted parse format b"
  shows "roundTrip parse format (Some (sourceParametersNode b)) =
           Inr (Some (sourceParametersNode b))"
proof (cases b)
  case (ActiveMQBrokerBlock x1 x2 x3 x4)
  with assms variant_activemq [of x1 x2 x3 x4] show ?thesis
    by (auto simp add: top_level_simps simp del: variantMap.simps nonZero.simps integersFit.simps)
next
  case (DynamoDBStreamBlock x1 x2 x3 x4 x5 x6 x7 x8)
  with assms variant_dynamodb [of x1 x2 x3 x4 x5 x6 x7 x8] show ?thesis
    by (auto simp add: top_level_simps simp del: variantMap.simps nonZero.simps integersFit.simps)
next
  case (KinesisStreamBlock x1 x2 x3 x4 x5 x6 x7 x8 x9)
  with assms variant_kinesis [of x1 x2 x3 x4 x5 x6 x7 x8 x9 parse format] show ?thesis
    by (auto simp add: top_level_simps
        simp del: variantMap.simps nonZero.simps integersFit.simps timestampReprinted.simps)
next
  case (ManagedStreamingKafkaBlock x1 x2 x3 x4 x5 x6)
  with assms variant_msk [of x1 x2 x3 x4 x5 x6] show ?thesis
    by (auto simp add: top_level_simps simp del: variantMap.simps nonZero.simps integersFit.simps)
next
  case (SqsQueueBlock x1 x2)
  with assms variant_sqs [of x1 x2] show ?thesis
    by (auto simp add: top_level_simps simp del: variantMap.simps nonZero.simps integersFit.simps)
qed

lemma expandFiltersLoop_entries:
  "\<forall>p \<in> set patterns. p \<noteq> [] \<Longrightarrow>
     expandFiltersLoop (Some acc) (map filterEntry patterns) =
       Some (acc @ map (\<lambda>p. \<lparr>Pattern = Some p\<rparr>) patterns)"
  by (induction patterns arbitrary: acc)
     (simp_all add: filterEntry_def expandFilter_def stringField_def index_def appendSlice_def)

lemma expandFilters_entries:
  assumes "patterns \<noteq> []" and "\<forall>p \<in> set patterns. p \<noteq> []"
  shows "expandFilters (Some (map filterEntry patterns)) =
           Some (map (\<lambda>p. \<lparr>Pattern = Some p\<rparr>) patterns)"
proof (cases patterns)
  case Nil
  with assms(1) show ?thesis by simp
next
  case (Cons p ps)
  with assms(2) have "p \<noteq> []" and rest: "\<forall>p \<in> set ps. p \<noteq> []"
    by simp_all
  then have "expandFiltersLoop None (filterEntry p # map filterEntry ps) =
        expandFiltersLoop (Some [\<lparr>Pattern = Some p\<rparr>]) (map filterEntry ps)"
    by (simp add: filterEntry_def expandFilter_def stringField_def index_def appendSlice_def)
  with rest show ?thesis
    by (simp add: Cons expandFilters_def expandFiltersLoop_entries)
qed

lemma flattenFilters_entries:
  assumes "patterns \<noteq> []"
  shows "flattenFilters (Some (map (\<lambda>p. \<lparr>Pattern = Some p\<rparr>) patterns)) =
           Some (map filterEntry patterns)"
proof (cases patterns)
  case Nil
  with assms show ?thesis by simp
next
  case (Cons p ps)
  then show ?thesis
    by (simp add: flattenFilters_Cons flattenFilter_def putString_def filterEntry_def)
qed

lemma filterCriteria_roundTrip:
  assumes "patterns \<noteq> []" and "\<forall>p \<in> set patterns. p \<noteq> []"
  shows "\<exists>a. blockField expandFilterCriteria (filterCriteriaBlock patterns) = Inr (Some a) \<and>
             TFList (Some [TFMap (flattenFilterCriteria (Some a))]) = filterCriteriaBlock patterns"
proof -
  obtain p ps where ps: "map filterEntry patterns = filterEntry p # map filterEntry ps"
      "patterns = p # ps"
    using assms(1) by (cases patterns) auto
  have "expandFilterCriteria (Some [''filter'' \<mapsto> TFList (Some (map filterEntry patterns))]) =
          Some \<lparr>Filters = Some (map (\<lambda>p. \<lparr>Pattern = Some p\<rparr>) patterns)\<rparr>"
    using expandFilters_entries [OF assms] ps
    by (simp add: expandFilterCriteria_def index_def)
  then show ?thesis
    using flattenFilters_entries [OF assms(1)]
    by (simp add: filterCriteriaBlock_def blockField_def assertMap_def andThen_def
        flattenFilterCriteria_def oneBlock_def)
qed

lemma blockField_TFNil [simp]: "blockField f TFNil = Inr None"
  by (simp add: blockField_def)

lemma blockFieldP_TFNil [simp]: "blockFieldP g TFNil = Inr None"
  by (simp add: blockFieldP_def)

lemma blockField_oneBlock [simp]: "blockField f (oneBlock m) = Inr (f (Some m))"
  by (simp add: blockField_def assertMap_def andThen_def)

lemma blockFieldP_oneBlock [simp]: "blockFieldP g (oneBlock m) = g (Some m)"
  by (simp add: blockFieldP_def assertMap_def andThen_def)

lemma filter_criteria_last:
  "k \<noteq> ''filter_criteria'' \<Longrightarrow>
     m(''filter_criteria'' \<mapsto> x, k \<mapsto> y) = m(k \<mapsto> y, ''filter_criteria'' \<mapsto> x)"
  by (rule fun_upd_twist) simp

lemmas with_filters_simps =
  roundTrip_def sourceParametersNodeWithFilters_def sourceParametersNode_def
  expandPipeSourceParameters_def flattenPipeSourceParameters_def putBlockP_def putBlock_def
  andThen_def index_def filter_criteria_last

lemma roundTrip_with_filters:
  assumes "nonZero b" and "integersFit b" and "timestampReprinted parse format b"
    and "patterns \<noteq> []" and "\<forall>p \<in> set patterns. p \<noteq> []"
  shows "roundTrip parse format (Some (sourceParametersNodeWithFilters b patterns)) =
           Inr (Some (sourceParametersNodeWithFilters b patterns))"
proof -
  obtain fc where fc: "blockField expandFilterCriteria (filterCriteriaBlock patterns) = Inr (Some fc)"
      "TFList (Some [TFMap (flattenFilterCriteria (Some fc))]) = filterCriteriaBlock patterns"
    using filterCriteria_roundTrip [OF assms(4,5)] by blast
  have one: "\<And>m. TFList (Some [TFMap (Some m)]) = oneBlock m"
    by (simp add: oneBlock_def)
  show ?thesis
  proof (cases b)
    case (ActiveMQBrokerBlock x1 x2 x3 x4)
    with assms variant_activemq [of x1 x2 x3 x4] fc show ?thesis
      by (auto simp add: with_filters_simps one
          simp del: variantMap.simps nonZero.simps integersFit.simps)
  next
    case (DynamoDBStreamBlock x1 x2 x3 x4 x5 x6 x7 x8)
    with assms variant_dynamodb [of x1 x2 x3 x4 x5 x6 x7 x8] fc show ?thesis
      by (auto simp add: with_filters_simps one
          simp del: variantMap.simps nonZero.simps integersFit.simps)
  next
    case (KinesisStreamBlock x1 x2 x3 x4 x5 x6 x7 x8 x9)
    with assms variant_kinesis [of x1 x2 x3 x4 x5 x6 x7 x8 x9 parse format] fc show ?thesis
      by (auto simp add: with_filters_simps one
          simp del: variantMap.simps nonZero.simps integersFit.simps timestampReprinted.simps)
  next
    case (ManagedStreamingKafkaBlock x1 x2 x3 x4 x5 x6)
    with assms variant_msk [of x1 x2 x3 x4 x5 x6] fc show ?thesis
      by (auto simp add: with_filters_simps one
          simp del: variantMap.simps nonZero.simps integersFit.simps)
  next
    case (SqsQueueBlock x1 x2)
    with assms variant_sqs [of x1 x2] fc show ?thesis
      by (auto simp add: with_filters_simps one
          simp del: variantMap.simps nonZero.simps integersFit.simps)
  qed
qed

text \<open>
  C1, under the conditions the code needs. For each of the five variants the mapper
  implements (ActiveMQ broker, DynamoDB stream, Kinesis stream, managed-streaming Kafka,
  SQS queue), expanding and then flattening a fully populated node gives the node back
  unchanged, provided that every attribute is non-zero, every integer is in the 32-bit
  signed range, the managed-streaming Kafka credentials set one of their two attributes,
  and the Kinesis timestamp is a string that the library's formatter prints back from its
  parse. The same holds when the node also has a filter criteria block of one or more
  non-empty patterns.
\<close>

theorem roundTrip_implemented_variants:
  assumes "nonZero b" and "integersFit b" and "timestampReprinted parse format b"
  shows "roundTrip parse format (Some (sourceParametersNode b)) =
           Inr (Some (sourceParametersNode b)) \<and>
         (patterns \<noteq> [] \<and> (\<forall>p \<in> set patterns. p \<noteq> []) \<longrightarrow>
            roundTrip parse format (Some (sourceParametersNodeWithFilters b patterns)) =
              Inr (Some (sourceParametersNodeWithFilters b patterns)))"
  using roundTrip_variant [OF assms] roundTrip_with_filters [OF assms, of patterns]
  by blast

theorem roundTrip_implemented_variants_witness:
  "roundTrip sampleParse sampleFormat
     (Some (sourceParametersNode
        (ActiveMQBrokerBlock 100 ''arn:aws:secretsmanager:secret'' 5 ''orders''))) =
     Inr (Some (sourceParametersNode
        (ActiveMQBrokerBlock 100 ''arn:aws:secretsmanager:secret'' 5 ''orders''))) \<and>
   roundTrip sampleParse sampleFormat
     (Some (sourceParametersNode
        (DynamoDBStreamBlock 100 ''arn:aws:sqs:dlq'' 5 (- 1) (- 1) ''AUTOMATIC_BISECT'' 2 ''LATEST''))) =
     Inr (Some (sourceParametersNode
        (DynamoDBStreamBlock 100 ''arn:aws:sqs:dlq'' 5 (- 1) (- 1) ''AUTOMATIC_BISECT'' 2 ''LATEST''))) \<and>
   roundTrip sampleParse sampleFormat
     (Some (sourceParametersNode
        (KinesisStreamBlock 100 ''arn:aws:sqs:dlq'' 5 60 3 ''AUTOMATIC_BISECT'' 2 ''AT_TIMESTAMP''
           ''2023-01-01T00:00:00Z''))) =
     Inr (Some (sourceParametersNode
        (KinesisStreamBlock 100 ''arn:aws:sqs:dlq'' 5 60 3 ''AUTOMATIC_BISECT'' 2 ''AT_TIMESTAMP''
           ''2023-01-01T00:00:00Z''))) \<and>
   roundTrip sampleParse sampleFormat
     (Some (sourceParametersNode
        (ManagedStreamingKafkaBlock 100 ''group'' (SaslScram512Auth ''arn:aws:secretsmanager:secret'')
           5 ''LATEST'' ''events''))) =
     Inr (Some (sourceParametersNode
        (ManagedStreamingKafkaBlock 100 ''group'' (SaslScram512Auth ''arn:aws:secretsmanager:secret'')
           5 ''LATEST'' ''events''))) \<and>
   roundTrip sampleParse sampleFormat (Some (sourceParametersNode (SqsQueueBlock 10 20))) =
     Inr (Some (sourceParametersNode (SqsQueueBlock 10 20))) \<and>
   roundTrip sampleParse sampleFormat
     (Some (sourceParametersNodeWithFilters (SqsQueueBlock 10 20) [''{a:[1]}'', ''{b:[2]}''])) =
     Inr (Some (sourceParametersNodeWithFilters (SqsQueueBlock 10 20) [''{a:[1]}'', ''{b:[2]}'']))"
  using roundTrip_implemented_variants
          [of "ActiveMQBrokerBlock 100 ''arn:aws:secretsmanager:secret'' 5 ''orders''"
              sampleParse sampleFormat]
        roundTrip_implemented_variants
          [of "DynamoDBStreamBlock 100 ''arn:aws:sqs:dlq'' 5 (- 1) (- 1) ''AUTOMATIC_BISECT'' 2 ''LATEST''"
              sampleParse sampleFormat]
        roundTrip_implemented_variants
          [of "KinesisStreamBlock 100 ''arn:aws:sqs:dlq'' 5 60 3 ''AUTOMATIC_BISECT'' 2 ''AT_TIMESTAMP''
                 ''2023-01-01T00:00:00Z''" sampleParse sampleFormat]
        roundTrip_implemented_variants
          [of "ManagedStreamingKafkaBlock 100 ''group''
                 (SaslScram512Auth ''arn:aws:secretsmanager:secret'') 5 ''LATEST'' ''events''"
              sampleParse sampleFormat]
        roundTrip_implemented_variants
          [of "SqsQueueBlock 10 20" sampleParse sampleFormat "[''{a:[1]}'', ''{b:[2]}'']"]
  by (simp add: fitsInt32_def sampleParse_def sampleFormat_def
      del: variantMap.simps)

text \<open>What the round trip gives on four nodes outside these conditions.\<close>

lemma map_differs: "m k \<noteq> m' k \<Longrightarrow> m \<noteq> m'"
  by auto

lemma block_differs: "m \<noteq> m' \<Longrightarrow> [k \<mapsto> oneBlock m] \<noteq> [k \<mapsto> oneBlock m']"
  by (auto simp add: oneBlock_def dest: map_upd_eqD1)

lemmas evaluation_simps =
  top_level_simps firstElem_def
  expandPipeSourceActiveMQBrokerParameters_def flattenPipeSourceActiveMQBrokerParameters_def
  expandPipeSourceDynamoDBStreamParameters_def flattenPipeSourceDynamoDBStreamParameters_def
  expandPipeSourceKinesisStreamParameters_def flattenPipeSourceKinesisStreamParameters_def
  expandPipeSourceManagedStreamingKafkaParameters_def
  flattenPipeSourceManagedStreamingKafkaParameters_def
  expandPipeSourceSqsQueueParameters_def flattenPipeSourceSqsQueueParameters_def
  expandMQBrokerAccessCredentialsMemberBasicAuth_def
  flattenMQBrokerAccessCredentialsMemberBasicAuth_def
  expandMSKAccessCredentials_def flattenMSKAccessCredentials_def
  expandDeadLetterConfig_def flattenDeadLetterConfig_def
  int32Field_def stringField_def enumField_def timeField_def
  putInt32_def putString_def putEnum_def

lemma oneBlock_differs: "m \<noteq> m' \<Longrightarrow> oneBlock m \<noteq> oneBlock m'"
  by (simp add: oneBlock_def)

lemma roundTrip_truncates:
  "roundTrip sampleParse sampleFormat
     (Some (sourceParametersNode (SqsQueueBlock 4294967297 20))) =
     Inr (Some (sourceParametersNode (SqsQueueBlock 1 20)))"
  by (simp add: evaluation_simps)

lemma roundTrip_drops_second_credential:
  "roundTrip sampleParse sampleFormat (Some twoCredentialsNode) =
     Inr (Some (sourceParametersNode
        (ManagedStreamingKafkaBlock 100 ''group'' (ClientCertificateTlsAuth ''arn:cert'')
           5 ''LATEST'' ''events'')))"
  by (simp add: evaluation_simps twoCredentialsNode_def)

lemma roundTrip_reprints_timestamp:
  "roundTrip sampleParse sampleFormat (Some (sourceParametersNode unparsedTimestampBlock)) =
     Inr (Some (sourceParametersNode
        (KinesisStreamBlock 100 ''arn:aws:sqs:dlq'' 5 60 3 ''AUTOMATIC_BISECT'' 2 ''AT_TIMESTAMP''
           ''0001-01-01T00:00:00Z'')))"
  by (simp add: evaluation_simps unparsedTimestampBlock_def sampleParse_def sampleFormat_def
      zeroTime_def)

lemma roundTrip_drops_rabbit_mq:
  "roundTrip sampleParse sampleFormat (Some rabbitMQNode) = Inr (Some Map.empty)"
  by (simp add: evaluation_simps rabbitMQNode_def)

lemma truncated_differs:
  "sourceParametersNode (SqsQueueBlock 1 20) \<noteq>
   sourceParametersNode (SqsQueueBlock 4294967297 20)"
proof -
  have "variantMap (SqsQueueBlock 1 20) \<noteq> variantMap (SqsQueueBlock 4294967297 20)"
    by (rule map_differs [of _ "''batch_size''"]) simp
  then show ?thesis
    unfolding sourceParametersNode_def variantKey.simps by (rule block_differs)
qed

lemma one_credential_differs:
  "sourceParametersNode
     (ManagedStreamingKafkaBlock 100 ''group'' (ClientCertificateTlsAuth ''arn:cert'')
        5 ''LATEST'' ''events'') \<noteq> twoCredentialsNode"
proof -
  have "[''client_certificate_tls_auth'' \<mapsto> TFString ''arn:cert''] \<noteq>
        [''client_certificate_tls_auth'' \<mapsto> TFString ''arn:cert'',
         ''sasl_scram_512_auth'' \<mapsto> TFString ''arn:scram'']"
    by (rule map_differs [of _ "''sasl_scram_512_auth''"]) simp
  then have "oneBlock [''client_certificate_tls_auth'' \<mapsto> TFString ''arn:cert''] \<noteq>
        oneBlock [''client_certificate_tls_auth'' \<mapsto> TFString ''arn:cert'',
         ''sasl_scram_512_auth'' \<mapsto> TFString ''arn:scram'']"
    by (rule oneBlock_differs)
  then have "variantMap (ManagedStreamingKafkaBlock 100 ''group''
                 (ClientCertificateTlsAuth ''arn:cert'') 5 ''LATEST'' ''events'') \<noteq>
        [''batch_size'' \<mapsto> TFInt 100,
         ''consumer_group_id'' \<mapsto> TFString ''group'',
         ''credentials'' \<mapsto> oneBlock
            [''client_certificate_tls_auth'' \<mapsto> TFString ''arn:cert'',
             ''sasl_scram_512_auth'' \<mapsto> TFString ''arn:scram''],
         ''maximum_batching_window_in_seconds'' \<mapsto> TFInt 5,
         ''starting_position'' \<mapsto> TFString ''LATEST'',
         ''topic_name'' \<mapsto> TFString ''events'']"
    by (intro map_differs [of _ "''credentials''"]) simp
  then show ?thesis
    unfolding sourceParametersNode_def variantKey.simps twoCredentialsNode_def
    by (rule block_differs)
qed

lemma reprinted_differs:
  "sourceParametersNode
     (KinesisStreamBlock 100 ''arn:aws:sqs:dlq'' 5 60 3 ''AUTOMATIC_BISECT'' 2 ''AT_TIMESTAMP''
        ''0001-01-01T00:00:00Z'') \<noteq> sourceParametersNode unparsedTimestampBlock"
proof -
  have "variantMap (KinesisStreamBlock 100 ''arn:aws:sqs:dlq'' 5 60 3 ''AUTOMATIC_BISECT'' 2
           ''AT_TIMESTAMP'' ''0001-01-01T00:00:00Z'') \<noteq> variantMap unparsedTimestampBlock"
    unfolding unparsedTimestampBlock_def
    by (rule map_differs [of _ "''starting_position_timestamp''"]) simp
  then show ?thesis
    unfolding sourceParametersNode_def unparsedTimestampBlock_def variantKey.simps
    by (rule block_differs)
qed

lemma empty_differs: "Map.empty \<noteq> rabbitMQNode"
  unfolding rabbitMQNode_def by (rule map_differs [of _ "''rabbit_mq_broker''"]) simp

text \<open>
  C1 does not hold for every fully populated, non-zero node: an integer beyond 32 bits
  comes back cut to 32 bits; of two managed-streaming Kafka credentials the second is lost;
  a timestamp that does not parse comes back as the zero time; a RabbitMQ broker block is
  not read at all.
\<close>

theorem roundTrip_counterexample:
  "roundTrip sampleParse sampleFormat
     (Some (sourceParametersNode (SqsQueueBlock 4294967297 20))) \<noteq>
     Inr (Some (sourceParametersNode (SqsQueueBlock 4294967297 20))) \<and>
   roundTrip sampleParse sampleFormat (Some twoCredentialsNode) \<noteq>
     Inr (Some twoCredentialsNode) \<and>
   roundTrip sampleParse sampleFormat (Some (sourceParametersNode unparsedTimestampBlock)) \<noteq>
     Inr (Some (sourceParametersNode unparsedTimestampBlock)) \<and>
   roundTrip sampleParse sampleFormat (Some rabbitMQNode) \<noteq> Inr (Some rabbitMQNode)"
  using truncated_differs one_credential_differs reprinted_differs empty_differs
  by (simp only: roundTrip_truncates roundTrip_drops_second_credential
      roundTrip_reprints_timestamp roundTrip_drops_rabbit_mq sum.inject option.inject
      simp_thms)

section \<open>Properties of the schema and its validation\<close>

lemmas schema_defs =
  sourceParametersSchema_def activemqBrokerParametersSchema_def
  dynamodbStreamParametersSchema_def filterCriteriaSchema_def kinesisStreamParametersSchema_def
  managedStreamingKafkaParametersSchema_def rabbitMQBrokerSchema_def selfManagedKafkaSchema_def
  sqsQueueParametersSchema_def

lemma batch_size_attribute:
  "k \<in> set sourceParameterVariants \<Longrightarrow>
     attributeAt sourceParametersSchema [k, ''batch_size''] =
       Some (Schema TypeInt True False 0 [] NoElem (IntBetween 1 10000))"
  by (auto simp add: sourceParameterVariants_def schema_defs)

lemma batch_size_validator:
  "validateValue ext (Schema TypeInt True False 0 [] NoElem (IntBetween 1 10000)) (TFInt v) \<longleftrightarrow>
     1 \<le> v \<and> v \<le> 10000"
  by simp

lemma mapper_accepts_batch_size:
  assumes "tfMap ''batch_size'' = Some (TFInt v)"
  shows "\<exists>a. expandPipeSourceSqsQueueParameters (Some tfMap) = Some a \<and>
             sqs_BatchSize a = (if v = 0 then None else Some (word_of_int v))"
    and "blockAsserts (index tfMap ''credentials'') \<Longrightarrow>
           \<exists>a. expandPipeSourceActiveMQBrokerParameters (Some tfMap) = Inr (Some a) \<and>
               amq_BatchSize a = (if v = 0 then None else Some (word_of_int v))"
    and "blockAsserts (index tfMap ''dead_letter_config'') \<Longrightarrow>
           \<exists>a. expandPipeSourceDynamoDBStreamParameters (Some tfMap) = Inr (Some a) \<and>
               ddb_BatchSize a = (if v = 0 then None else Some (word_of_int v))"
    and "blockAsserts (index tfMap ''dead_letter_config'') \<Longrightarrow>
           \<exists>a. expandPipeSourceKinesisStreamParameters parse (Some tfMap) = Inr (Some a) \<and>
               kin_BatchSize a = (if v = 0 then None else Some (word_of_int v))"
    and "blockAsserts (index tfMap ''credentials'') \<Longrightarrow>
           \<exists>a. expandPipeSourceManagedStreamingKafkaParameters (Some tfMap) = Inr (Some a) \<and>
               msk_BatchSize a = (if v = 0 then None else Some (word_of_int v))"
  using assms
  by (simp_all add: expandPipeSourceSqsQueueParameters_def
      expandPipeSourceActiveMQBrokerParameters_def expandPipeSourceDynamoDBStreamParameters_def
      expandPipeSourceKinesisStreamParameters_def
      expandPipeSourceManagedStreamingKafkaParameters_def
      blockField_asserts andThen_def index_def int32Field_def)

text \<open>
  C7. In each of the seven variant blocks of \<^verbatim>\<open>sourceParametersSchema\<close> the attribute
  \<^verbatim>\<open>batch_size\<close> is an integer validated by \<^verbatim>\<open>IntBetween(1, 10000)\<close>, so the validation
  layer accepts an integer exactly when it lies between 1 and 10000 inclusive; 0, 10001 and
  -2 are rejected there. The mapper accepts every integer: each per-variant expand function
  returns normally, with \<^verbatim>\<open>BatchSize\<close> nil for 0 and the value cut to 32 bits otherwise.
\<close>

theorem batch_size_checked_by_validation_not_mapper:
  "(\<forall>k \<in> set sourceParameterVariants.
      \<exists>s. attributeAt sourceParametersSchema [k, ''batch_size''] = Some s \<and>
          Type s = TypeInt \<and>
          (validateValue ext s (TFInt v) \<longleftrightarrow> 1 \<le> v \<and> v \<le> 10000)) \<and>
   (tfMap ''batch_size'' = Some (TFInt v) \<longrightarrow>
      (\<exists>a. expandPipeSourceSqsQueueParameters (Some tfMap) = Some a \<and>
           sqs_BatchSize a = (if v = 0 then None else Some (word_of_int v))) \<and>
      (blockAsserts (index tfMap ''credentials'') \<longrightarrow>
         (\<exists>a. expandPipeSourceActiveMQBrokerParameters (Some tfMap) = Inr (Some a) \<and>
              amq_BatchSize a = (if v = 0 then None else Some (word_of_int v)))) \<and>
      (blockAsserts (index tfMap ''dead_letter_config'') \<longrightarrow>
         (\<exists>a. expandPipeSourceDynamoDBStreamParameters (Some tfMap) = Inr (Some a) \<and>
              ddb_BatchSize a = (if v = 0 then None else Some (word_of_int v)))) \<and>
      (blockAsserts (index tfMap ''dead_letter_config'') \<longrightarrow>
         (\<exists>a. expandPipeSourceKinesisStreamParameters parse (Some tfMap) = Inr (Some a) \<and>
              kin_BatchSize a = (if v = 0 then None else Some (word_of_int v)))) \<and>
      (blockAsserts (index tfMap ''credentials'') \<longrightarrow>
         (\<exists>a. expandPipeSourceManagedStreamingKafkaParameters (Some tfMap) = Inr (Some a) \<and>
              msk_BatchSize a = (if v = 0 then None else Some (word_of_int v)))))"
proof -
  have "\<forall>k \<in> set sourceParameterVariants.
            \<exists>s. attributeAt sourceParametersSchema [k, ''batch_size''] = Some s \<and>
                Type s = TypeInt \<and>
                (validateValue ext s (TFInt v) \<longleftrightarrow> 1 \<le> v \<and> v \<le> 10000)"
  proof
    fix k
    assume "k \<in> set sourceParameterVariants"
    then have "attributeAt sourceParametersSchema [k, ''batch_size''] =
                 Some (Schema TypeInt True False 0 [] NoElem (IntBetween 1 10000))"
      by (rule batch_size_attribute)
    then show "\<exists>s. attributeAt sourceParametersSchema [k, ''batch_size''] = Some s \<and>
                Type s = TypeInt \<and>
                (validateValue ext s (TFInt v) \<longleftrightarrow> 1 \<le> v \<and> v \<le> 10000)"
      using batch_size_validator [of ext v] by simp
  qed
  with mapper_accepts_batch_size(1-3,5) [of tfMap v]
    mapper_accepts_batch_size(4) [of tfMap v parse]
  show ?thesis
    by blast
qed

theorem batch_size_checked_by_validation_not_mapper_witness:
  "(\<exists>s. attributeAt sourceParametersSchema [''sqs_queue_parameters'', ''batch_size''] = Some s \<and>
        \<not> validateValue acceptsAll s (TFInt 0)) \<and>
   (\<exists>a. expandPipeSourceSqsQueueParameters (Some [''batch_size'' \<mapsto> TFInt 0]) = Some a \<and>
        sqs_BatchSize a = None) \<and>
   (\<exists>s. attributeAt sourceParametersSchema [''rabbit_mq_broker'', ''batch_size''] = Some s \<and>
        \<not> validateValue acceptsAll s (TFInt 10001)) \<and>
   (\<exists>a. expandPipeSourceKinesisStreamParameters sampleParse (Some [''batch_size'' \<mapsto> TFInt 10001]) =
          Inr (Some a) \<and>
        kin_BatchSize a = Some 10001) \<and>
   (\<exists>s. attributeAt sourceParametersSchema [''activemq_broker_parameters'', ''batch_size''] = Some s \<and>
        \<not> validateValue acceptsAll s (TFInt (- 2))) \<and>
   (\<exists>a. expandPipeSourceActiveMQBrokerParameters (Some [''batch_size'' \<mapsto> TFInt (- 2)]) =
          Inr (Some a) \<and>
        amq_BatchSize a = Some (- 2)) \<and>
   (\<exists>s. attributeAt sourceParametersSchema [''self_managed_kafka'', ''batch_size''] = Some s \<and>
        validateValue acceptsAll s (TFInt 10000))"
  using batch_size_checked_by_validation_not_mapper 
          [of acceptsAll 0 "[''batch_size'' \<mapsto> TFInt 0]" sampleParse]
        batch_size_checked_by_validation_not_mapper
          [of acceptsAll 10001 "[''batch_size'' \<mapsto> TFInt 10001]" sampleParse]
        batch_size_checked_by_validation_not_mapper
          [of acceptsAll "- 2" "[''batch_size'' \<mapsto> TFInt (- 2)]" sampleParse]
        batch_size_checked_by_validation_not_mapper
          [of acceptsAll 10000 "[''batch_size'' \<mapsto> TFInt 10000]" sampleParse]
  by (simp add: blockAsserts_def index_def sourceParameterVariants_def
      del: attributeAt.simps) blast

lemma validate_filter_entries:
  "list_all (validateElem ext (ElemResource
      [(''pattern'', Schema TypeString False True 0 [] NoElem (StringLenBetween 1 4096))]))
      (map filterEntry patterns) \<longleftrightarrow>
   (\<forall>p \<in> set patterns. 1 \<le> length p \<and> length p \<le> 4096)"
  by (induction patterns) (auto simp add: filterEntry_def)

text \<open>
  C8. The \<^verbatim>\<open>filter_criteria\<close> block of the schema takes a list \<^verbatim>\<open>filter\<close> of at most 5
  entries, each with the required string \<^verbatim>\<open>pattern\<close> of length 1 to 4096: a non-empty list
  of entries passes validation exactly when it has at most 5 entries and every pattern has
  such a length, and an entry without a pattern is rejected. So 5 entries with patterns of
  such a length pass and a 6th entry is rejected.
\<close>

theorem filter_criteria_validation:
  assumes "patterns \<noteq> []"
  shows "attributeAt sourceParametersSchema [''filter_criteria''] = Some filterCriteriaSchema \<and>
         (validateValue ext filterCriteriaSchema (filterCriteriaBlock patterns) \<longleftrightarrow>
            length patterns \<le> 5 \<and> (\<forall>p \<in> set patterns. 1 \<le> length p \<and> length p \<le> 4096)) \<and>
         \<not> validateValue ext filterCriteriaSchema
             (oneBlock [''filter'' \<mapsto> TFList (Some [TFMap (Some Map.empty)])])"
  using validate_filter_entries [of ext patterns]
  by (simp add: schema_defs filterCriteriaBlock_def oneBlock_def)

theorem filter_criteria_validation_witness:
  "validateValue acceptsAll filterCriteriaSchema
     (filterCriteriaBlock [''{a:[1]}'', ''{b:[2]}'', ''{c:[3]}'', ''{d:[4]}'', ''{e:[5]}'']) \<and>
   \<not> validateValue acceptsAll filterCriteriaSchema
     (filterCriteriaBlock [''{a:[1]}'', ''{b:[2]}'', ''{c:[3]}'', ''{d:[4]}'', ''{e:[5]}'',
        ''{f:[6]}'']) \<and>
   \<not> validateValue acceptsAll filterCriteriaSchema (filterCriteriaBlock [[]])"
  using filter_criteria_validation
          [of "[''{a:[1]}'', ''{b:[2]}'', ''{c:[3]}'', ''{d:[4]}'', ''{e:[5]}'']" acceptsAll]
        filter_criteria_validation
          [of "[''{a:[1]}'', ''{b:[2]}'', ''{c:[3]}'', ''{d:[4]}'', ''{e:[5]}'', ''{f:[6]}'']" acceptsAll]
        filter_criteria_validation [of "[[]]" acceptsAll]
  by simp

end
